theory Spec2Isabelle
  imports Complex_Main "HOL-Library.Sublist" "HOL-Library.AList"
begin

section \<open>Python values and dictionaries\<close>

text \<open>
  The data factory passes listings around as Python dictionaries from field names to
  values. A value is \<open>None\<close>, a number, a string or a list. Python floats are idealised
  as rationals: the arithmetic of the model is exact. Strings are byte lists (UTF-8).
\<close>

datatype pyval = PNone | PNum rat | PStr string | PList "pyval list"

datatype py_error = KeyError | TypeError | AttributeError | ZeroDivisionError

type_synonym pydict = "(string \<times> pyval) list"

text \<open>\<open>d.get(k)\<close>, \<open>d.get(k, default)\<close> and \<open>d[k]\<close>.\<close>

definition dict_get :: "pydict \<Rightarrow> string \<Rightarrow> pyval" where
  "dict_get d k = (case map_of d k of None \<Rightarrow> PNone | Some v \<Rightarrow> v)"

definition dict_get_default :: "pydict \<Rightarrow> string \<Rightarrow> pyval \<Rightarrow> pyval" where
  "dict_get_default d k dflt = (case map_of d k of None \<Rightarrow> dflt | Some v \<Rightarrow> v)"

definition dict_index :: "pydict \<Rightarrow> string \<Rightarrow> py_error + pyval" where
  "dict_index d k = (case map_of d k of None \<Rightarrow> Inl KeyError | Some v \<Rightarrow> Inr v)"

text \<open>Truthiness, as \<open>if v\<close>, \<open>not v\<close> and \<open>all([...])\<close> read a value.\<close>

fun truthy :: "pyval \<Rightarrow> bool" where
  "truthy PNone = False"
| "truthy (PNum r) = (r \<noteq> 0)"
| "truthy (PStr s) = (s \<noteq> [])"
| "truthy (PList xs) = (xs \<noteq> [])"

text \<open>\<open>a / b\<close>: defined on numbers, \<open>ZeroDivisionError\<close> on a zero divisor.\<close>

fun py_truediv :: "pyval \<Rightarrow> pyval \<Rightarrow> py_error + rat" where
  "py_truediv (PNum a) (PNum b) = (if b = 0 then Inl ZeroDivisionError else Inr (a / b))"
| "py_truediv _ _ = Inl TypeError"

text \<open>\<open>v > 0\<close>: an order comparison of a number with \<open>0\<close>; \<open>TypeError\<close> otherwise.\<close>

fun py_gt_zero :: "pyval \<Rightarrow> py_error + bool" where
  "py_gt_zero (PNum a) = Inr (0 < a)"
| "py_gt_zero _ = Inl TypeError"

text \<open>
  \<open>round(x, 1)\<close>: the multiple of \<open>0.1\<close> nearest to \<open>x\<close>. When \<open>x\<close> lies exactly halfway
  between two of them, Python decides on the double it holds for \<open>x\<close>, which may lie on
  either side of the halfway point or on it; the exact arithmetic of the model cannot
  tell which. The choice is therefore the parameter \<open>tie_up\<close>, which says whether the tie
  at \<open>x\<close> goes to the upper neighbour.
\<close>

definition py_round1 :: "(rat \<Rightarrow> bool) \<Rightarrow> rat \<Rightarrow> rat" where
  "py_round1 tie_up x =
     (let f = \<lfloor>x * 10\<rfloor>; d = x * 10 - of_int f
      in if d < 1 / 2 then of_int f / 10
         else if 1 / 2 < d then of_int (f + 1) / 10
         else if tie_up x then of_int (f + 1) / 10
         else of_int f / 10)"

section \<open>NeighborhoodStats and the deal rating (\<open>price_analyzer.py\<close>)\<close>

text \<open>
  A row of the \<open>NeighborhoodStats\<close> table (\<open>neighborhood_stats\<close> in SQL), with the columns
  of the schema. Timestamps are abstract clock readings.
\<close>

record neighborhood_stats =
  city :: string
  region :: "string option"
  avg_price_per_sqm :: rat
  median_price :: rat
  total_listings :: nat
  active_listings :: nat
  avg_rent_price :: "rat option"
  avg_sale_price :: "rat option"
  updated_at :: nat

text \<open>
  \<open>PriceAnalyzer._get_neighborhood_avg\<close>: the rows whose city equals the argument, the
  first row's \<open>avgPricePerSqm\<close>; \<open>None\<close> when no row matches (or the query fails).
\<close>

definition get_neighborhood_avg :: "neighborhood_stats list \<Rightarrow> pyval \<Rightarrow> rat option" where
  "get_neighborhood_avg stats c =
     (case filter (\<lambda>r. PStr (city r) = c) stats of
        [] \<Rightarrow> None
      | r # _ \<Rightarrow> Some (avg_price_per_sqm r))"

text \<open>\<open>max(0, min(100, x))\<close>.\<close>

definition clamp_rating :: "rat \<Rightarrow> rat" where
  "clamp_rating x = max 0 (min 100 x)"

text \<open>
  \<open>PriceAnalyzer.calculate_deal_rating\<close>. The result is \<open>None\<close> or a number; a \<open>/\<close> on a
  non-number raises. \<open>tie_up\<close> is the choice of \<open>round\<close> at a tie.
\<close>

definition calculate_deal_rating ::
  "(rat \<Rightarrow> bool) \<Rightarrow> neighborhood_stats list \<Rightarrow> pydict \<Rightarrow> py_error + pyval" where
  "calculate_deal_rating tie_up stats property_data =
     (let c = dict_get property_data ''city'';
          surface = dict_get property_data ''surfaceArea'';
          price = dict_get property_data ''price''
      in if \<not> (truthy c \<and> truthy surface \<and> truthy price) \<or> surface = PNum 0 then Inr PNone
         else case py_truediv price surface of
           Inl e \<Rightarrow> Inl e
         | Inr price_per_sqm \<Rightarrow>
             (case get_neighborhood_avg stats c of
                None \<Rightarrow> Inr PNone
              | Some avg \<Rightarrow>
                  if avg = 0 then Inr PNone
                  else (let discount = ((avg - price_per_sqm) / avg) * 100;
                            deal_rating = 50 + discount * (5 / 2)
                        in Inr (PNum (py_round1 tie_up (clamp_rating deal_rating))))))"

text \<open>
  The rating the specification describes, before any rounding:
  \<open>clamp(50 + discountPct * 2.5, 0, 100)\<close> with
  \<open>discountPct = (avg - pricePerArea) / avg * 100\<close>.
\<close>

definition spec_deal_rating :: "rat \<Rightarrow> rat \<Rightarrow> rat" where
  "spec_deal_rating avg price_per_area =
     clamp_rating (50 + ((avg - price_per_area) / avg * 100) * (5 / 2))"

section \<open>The normalizer (\<open>normalizer.py\<close>)\<close>

text \<open>
  \<open>str.lower()\<close> is the Python library's, with the case tables of Unicode behind it. The
  functions that call it take it as the parameter \<open>lower\<close>.
\<close>

text \<open>
  What an f-string writes for a value: a string as it is, \<open>None\<close> as \<open>None\<close>; the
  printed form of a number or a list is a parameter.
\<close>

definition py_format :: "(pyval \<Rightarrow> string) \<Rightarrow> pyval \<Rightarrow> string" where
  "py_format repr v = (case v of PStr s \<Rightarrow> s | PNone \<Rightarrow> ''None'' | _ \<Rightarrow> repr v)"

text \<open>\<open>DataNormalizer.PROPERTY_TYPE_MAP\<close>, in insertion order.\<close>

definition PROPERTY_TYPE_MAP :: "(string \<times> string) list" where
  "PROPERTY_TYPE_MAP =
     [(''appartement'', ''APARTMENT''),
      (''appart'', ''APARTMENT''),
      (''studio'', ''STUDIO''),
      (''s1'', ''STUDIO''),
      (''s2'', ''APARTMENT''),
      (''s3'', ''APARTMENT''),
      (''s4'', ''APARTMENT''),
      (''s+'', ''APARTMENT''),
      (''maison'', ''HOUSE''),
      (''villa'', ''VILLA''),
      (''duplex'', ''DUPLEX''),
      (''penthouse'', ''PENTHOUSE''),
      (''terrain'', ''LAND''),
      ([CHR 0xD8, CHR 0xA7, CHR 0xD8, CHR 0xB1, CHR 0xD8, CHR 0xB6], ''LAND''),
      ([CHR 0xD8, CHR 0xA3, CHR 0xD8, CHR 0xB1, CHR 0xD8, CHR 0xB6], ''LAND''),
      (''bureau'', ''OFFICE''),
      (''local commercial'', ''COMMERCIAL''),
      (''commercial'', ''COMMERCIAL''),
      (''ferme'', ''FARM''),
      ([CHR 0xD9, CHR 0x85, CHR 0xD8, CHR 0xB2, CHR 0xD8, CHR 0xB1, CHR 0xD8, CHR 0xB9,
        CHR 0xD8, CHR 0xA9], ''FARM'')]"

text \<open>
  \<open>DataNormalizer._extract_property_type\<close>: the first keyword of the table that occurs
  in the lowered title decides; \<open>None\<close> when none occurs. Only a string has \<open>.lower()\<close>.
\<close>

definition extract_property_type :: "(string \<Rightarrow> string) \<Rightarrow> pyval \<Rightarrow> py_error + pyval" where
  "extract_property_type lower title =
     (case title of
        PStr t \<Rightarrow>
          (let title_lower = lower t
           in case filter (\<lambda>(keyword, enum_value). sublist (lower keyword) title_lower)
                     PROPERTY_TYPE_MAP of
                [] \<Rightarrow> Inr PNone
              | (keyword, enum_value) # _ \<Rightarrow> Inr (PStr enum_value))
      | _ \<Rightarrow> Inl AttributeError)"

definition rent_keywords :: "string list" where
  "rent_keywords =
     [''louer'', ''location'', [CHR 0xC3, CHR 0xA0] @ '' louer'', ''a louer'',
      [CHR 0xD9, CHR 0x84, CHR 0xD9, CHR 0x84, CHR 0xD9, CHR 0x83, CHR 0xD8, CHR 0xB1,
       CHR 0xD8, CHR 0xA7, CHR 0xD8, CHR 0xA1]]"

definition sale_keywords :: "string list" where
  "sale_keywords =
     [''vendre'', ''vente'', [CHR 0xC3, CHR 0xA0] @ '' vendre'', ''a vendre'',
      [CHR 0xD9, CHR 0x84, CHR 0xD9, CHR 0x84, CHR 0xD8, CHR 0xA8, CHR 0xD9, CHR 0x8A,
       CHR 0xD8, CHR 0xB9]]"

text \<open>\<open>sum(1 for kw in keywords if kw in text)\<close>.\<close>

definition keyword_score :: "string list \<Rightarrow> string \<Rightarrow> nat" where
  "keyword_score keywords text = length (filter (\<lambda>kw. sublist kw text) keywords)"

text \<open>\<open>DataNormalizer._extract_listing_type\<close>.\<close>

definition extract_listing_type ::
  "(string \<Rightarrow> string) \<Rightarrow> string \<Rightarrow> string \<Rightarrow> string \<Rightarrow> string" where
  "extract_listing_type lower url title description =
     (let text = lower (url @ '' '' @ title @ '' '' @ description);
          rent_score = keyword_score rent_keywords text;
          sale_score = keyword_score sale_keywords text
      in if rent_score > sale_score then ''RENT''
         else if sale_score > rent_score then ''SALE''
         else ''SALE'')"

text \<open>
  \<open>DataNormalizer.normalize\<close>, as far as the source shows it: the copy of the input, the
  two classifications, \<open>source\<close> and \<open>status\<close>, and the price per square metre. A missing
  key read with \<open>[...]\<close> raises, as does a comparison or a division on a non-number.
\<close>

definition normalize ::
  "(string \<Rightarrow> string) \<Rightarrow> (pyval \<Rightarrow> string) \<Rightarrow> pydict \<Rightarrow> py_error + pydict" where
  "normalize lower repr property_data =
     (case dict_index property_data ''title'' of
        Inl e \<Rightarrow> Inl e
      | Inr title \<Rightarrow>
     (case extract_property_type lower title of
        Inl e \<Rightarrow> Inl e
      | Inr property_type \<Rightarrow>
     (case dict_index property_data ''sourceUrl'' of
        Inl e \<Rightarrow> Inl e
      | Inr url \<Rightarrow>
     (let listing_type = extract_listing_type lower (py_format repr url) (py_format repr title)
            (py_format repr (dict_get_default property_data ''description'' (PStr [])));
          normalized = AList.update ''propertyType'' property_type property_data;
          normalized = AList.update ''listingType'' (PStr listing_type) normalized;
          normalized = AList.update ''source'' (PStr ''TUNISIE_ANNONCE'') normalized;
          normalized = AList.update ''status'' (PStr ''ACTIVE'') normalized;
          surface = dict_get normalized ''surfaceArea''
      in if \<not> truthy surface then Inr normalized
         else case py_gt_zero surface of
           Inl e \<Rightarrow> Inl e
         | Inr positive \<Rightarrow>
             if \<not> positive then Inr normalized
             else case dict_index normalized ''price'' of
               Inl e \<Rightarrow> Inl e
             | Inr price \<Rightarrow>
                 (case py_truediv price surface of
                    Inl e \<Rightarrow> Inl e
                  | Inr q \<Rightarrow> Inr (AList.update ''pricePerSqm'' (PNum q) normalized))))))"

section \<open>The upsert client (\<open>db_client.py\<close>)\<close>

text \<open>
  The dictionary literal \<open>payload\<close> of \<open>upsert_property\<close>, in the order of the source,
  with the optional embedding entry. The four values read with \<open>[...]\<close> are arguments.
  \<open>now\<close> is the clock reading \<open>datetime.utcnow().isoformat()\<close>; \<open>format_vector\<close> is the
  helper \<open>_format_vector\<close>, whose text the source does not show.
\<close>

definition payload_fields ::
  "(pyval \<Rightarrow> string) \<Rightarrow> string \<Rightarrow> pydict \<Rightarrow> pyval \<Rightarrow> pyval \<Rightarrow> pyval \<Rightarrow> pyval \<Rightarrow> pydict" where
  "payload_fields format_vector now property_data source_url listing_type title price_value =
     (let payload =
           [(''sourceUrl'', source_url),
            (''source'', dict_get_default property_data ''source'' (PStr ''TUNISIE_ANNONCE'')),
            (''listingType'', listing_type),
            (''status'', dict_get_default property_data ''status'' (PStr ''ACTIVE'')),
            (''title'', title),
            (''description'', dict_get property_data ''description''),
            (''price'', price_value),
            (''currency'', dict_get_default property_data ''currency'' (PStr ''TND'')),
            (''city'', dict_get property_data ''city''),
            (''region'', dict_get property_data ''region''),
            (''latitude'', dict_get property_data ''latitude''),
            (''longitude'', dict_get property_data ''longitude''),
            (''propertyType'', dict_get property_data ''propertyType''),
            (''surfaceArea'', dict_get property_data ''surfaceArea''),
            (''rooms'', dict_get property_data ''rooms''),
            (''bathrooms'', dict_get property_data ''bathrooms''),
            (''pricePerSqm'', dict_get property_data ''pricePerSqm''),
            (''features'', dict_get_default property_data ''features'' (PList [])),
            (''renovationScore'', dict_get property_data ''renovationScore''),
            (''dealRating'', dict_get property_data ''dealRating''),
            (''aiTags'', dict_get_default property_data ''aiTags'' (PList [])),
            (''updatedAt'', PStr now),
            (''scrapedAt'', PStr now)]
      in if truthy (dict_get property_data ''descriptionEmbedding'')
         then AList.update ''descriptionEmbedding''
                (PStr (format_vector (dict_get property_data ''descriptionEmbedding''))) payload
         else payload)"

text \<open>
  The payload \<open>upsert_property\<close> sends: a missing \<open>sourceUrl\<close>, \<open>listingType\<close>, \<open>title\<close> or
  \<open>price\<close> raises; the \<open>None\<close> values are removed from the dictionary.
\<close>

definition upsert_payload :: "(pyval \<Rightarrow> string) \<Rightarrow> string \<Rightarrow> pydict \<Rightarrow> py_error + pydict" where
  "upsert_payload format_vector now property_data =
     (case dict_index property_data ''sourceUrl'' of Inl e \<Rightarrow> Inl e | Inr source_url \<Rightarrow>
     (case dict_index property_data ''listingType'' of Inl e \<Rightarrow> Inl e | Inr listing_type \<Rightarrow>
     (case dict_index property_data ''title'' of Inl e \<Rightarrow> Inl e | Inr title \<Rightarrow>
     (case dict_index property_data ''price'' of Inl e \<Rightarrow> Inl e | Inr price_value \<Rightarrow>
        Inr (filter (\<lambda>(k, v). v \<noteq> PNone)
               (payload_fields format_vector now property_data
                  source_url listing_type title price_value))))))"

text \<open>
  Modelled from the spec: the merge-update of a stored row, for the write the source
  elides after the payload (\<open># Upsert logic...\<close>). All fields of the payload are written
  except \<open>createdAt\<close>. A field is supplied when the payload has a key for it; a field the
  payload has no key for keeps its stored value, which is how an enrichment-owned field
  survives a write that does not supply it. The opaque \<open>id\<close> of a row is not modelled.
\<close>

definition merge_update :: "pydict \<Rightarrow> pydict \<Rightarrow> pydict" where
  "merge_update payload row =
     fold (\<lambda>(k, v) r. if k = ''createdAt'' then r else AList.update k v r) payload row"

text \<open>
  Modelled from the spec: the upsert by unique key of the store, for the write the source
  elides. The first row whose \<open>sourceUrl\<close> is the payload's is merge-updated; when there
  is none, the payload is inserted as a new row with \<open>createdAt = now\<close>.
\<close>

fun store_upsert :: "string \<Rightarrow> pydict \<Rightarrow> pydict list \<Rightarrow> pydict list" where
  "store_upsert now payload [] = [AList.update ''createdAt'' (PStr now) payload]"
| "store_upsert now payload (row # rows) =
     (if dict_get row ''sourceUrl'' = dict_get payload ''sourceUrl''
      then merge_update payload row # rows
      else row # store_upsert now payload rows)"

text \<open>
  Modelled from the spec: the select by key of the store, the stored row of a source URL.
\<close>

definition select_by_url :: "pyval \<Rightarrow> pydict list \<Rightarrow> pydict option" where
  "select_by_url url rows = find (\<lambda>row. dict_get row ''sourceUrl'' = url) rows"

text \<open>
  \<open>upsert_property\<close>: the payload of the source, then the store write modelled above. An
  exception while the payload is built leaves the store as it was.
\<close>

definition upsert_property ::
  "(pyval \<Rightarrow> string) \<Rightarrow> string \<Rightarrow> pydict \<Rightarrow> pydict list \<Rightarrow> py_error + pydict list" where
  "upsert_property format_vector now property_data rows =
     (case upsert_payload format_vector now property_data of
        Inl e \<Rightarrow> Inl e
      | Inr payload \<Rightarrow> Inr (store_upsert now payload rows))"

section \<open>The neighborhood aggregator (SQL function \<open>update_neighborhood_stats\<close>)\<close>

text \<open>
  A row of the \<open>properties\<close> table, with the columns the function reads. \<open>price\<close> is a
  required column; \<open>city\<close>, \<open>region\<close> and \<open>surface_area\<close> may be \<open>NULL\<close>.
\<close>

record properties =
  prop_city :: "string option"
  prop_region :: "string option"
  price :: rat
  surface_area :: "rat option"
  status :: string

text \<open>
  \<open>FROM properties WHERE city IS NOT NULL AND surface_area > 0\<close>: the rows the clause
  keeps, each with its grouping key \<open>(city, region)\<close>. A \<open>NULL\<close> surface area compares
  to \<open>NULL\<close>, which the clause rejects.
\<close>

definition where_rows :: "properties list \<Rightarrow> ((string \<times> string option) \<times> properties) list" where
  "where_rows props =
     List.map_filter
       (\<lambda>p. case prop_city p of
              None \<Rightarrow> None
            | Some c \<Rightarrow>
                (case surface_area p of
                   None \<Rightarrow> None
                 | Some a \<Rightarrow> if 0 < a then Some ((c, prop_region p), p) else None))
       props"

text \<open>\<open>price / NULLIF(surface_area, 0)\<close>: \<open>NULL\<close> when the area is \<open>NULL\<close> or \<open>0\<close>.\<close>

definition price_per_area :: "properties \<Rightarrow> rat option" where
  "price_per_area p =
     (case surface_area p of
        None \<Rightarrow> None
      | Some a \<Rightarrow> if a = 0 then None else Some (price p / a))"

text \<open>
  \<open>AVG\<close> skips \<open>NULL\<close>s. It is \<open>NULL\<close> over no value at all, which does not arise here:
  a group has a row, and the rows kept have a positive area.
\<close>

definition sql_avg :: "rat option list \<Rightarrow> rat" where
  "sql_avg xs =
     (let vs = List.map_filter id xs
      in if vs = [] then 0 else sum_list vs / of_nat (length vs))"

text \<open>
  \<open>PERCENTILE_CONT(0.5) WITHIN GROUP (ORDER BY price)\<close>: the middle value of the sorted
  prices, the mean of the two middle values when their number is even.
\<close>

definition percentile_cont_half :: "rat list \<Rightarrow> rat" where
  "percentile_cont_half xs =
     (let s = sort xs; n = length s
      in if n = 0 then 0
         else if odd n then s ! (n div 2)
         else (s ! (n div 2 - 1) + s ! (n div 2)) / 2)"

text \<open>
  The row the \<open>SELECT\<close> yields for one group, as the \<open>INSERT\<close> would store it: the columns
  the statement does not list take their defaults.
\<close>

definition group_row :: "nat \<Rightarrow> string \<times> string option \<Rightarrow> properties list \<Rightarrow> neighborhood_stats" where
  "group_row now k g =
     \<lparr>city = fst k,
      region = snd k,
      avg_price_per_sqm = sql_avg (map price_per_area g),
      median_price = percentile_cont_half (map price g),
      total_listings = length g,
      active_listings = length (filter (\<lambda>p. status p = ''ACTIVE'') g),
      avg_rent_price = None,
      avg_sale_price = None,
      updated_at = now\<rparr>"

text \<open>\<open>SELECT ... GROUP BY city, region\<close>: one row for each key among the rows kept.\<close>

definition select_stats :: "nat \<Rightarrow> properties list \<Rightarrow> neighborhood_stats list" where
  "select_stats now props =
     (let rows = where_rows props
      in map (\<lambda>k. group_row now k (map snd (filter (\<lambda>kp. fst kp = k) rows)))
           (remdups (map fst rows)))"

text \<open>
  \<open>ON CONFLICT (city, region)\<close>: a stored row conflicts with a proposed one when both
  columns are equal. The unique index the clause names is not in the source;
  \<open>nulls_distinct\<close> says whether it keeps \<open>NULL\<close> regions apart (PostgreSQL's default), in
  which case a proposed row with a \<open>NULL\<close> region conflicts with nothing.
\<close>

definition conflicts :: "bool \<Rightarrow> neighborhood_stats \<Rightarrow> neighborhood_stats \<Rightarrow> bool" where
  "conflicts nulls_distinct excluded r =
     (city r = city excluded \<and> region r = region excluded \<and>
      (nulls_distinct \<longrightarrow> region excluded \<noteq> None))"

text \<open>\<open>INSERT ... ON CONFLICT (city, region) DO UPDATE SET ...\<close> for one proposed row.\<close>

definition insert_on_conflict ::
  "bool \<Rightarrow> nat \<Rightarrow> neighborhood_stats \<Rightarrow> neighborhood_stats list \<Rightarrow> neighborhood_stats list" where
  "insert_on_conflict nulls_distinct now excluded table =
     (if list_ex (conflicts nulls_distinct excluded) table
      then map (\<lambda>r. if conflicts nulls_distinct excluded r
                     then r\<lparr>avg_price_per_sqm := avg_price_per_sqm excluded,
                            median_price := median_price excluded,
                            total_listings := total_listings excluded,
                            active_listings := active_listings excluded,
                            updated_at := now\<rparr>
                     else r) table
      else table @ [excluded])"

text \<open>One run of \<open>update_neighborhood_stats()\<close> over a snapshot of \<open>properties\<close>.\<close>

definition update_neighborhood_stats ::
  "bool \<Rightarrow> nat \<Rightarrow> properties list \<Rightarrow> neighborhood_stats list \<Rightarrow> neighborhood_stats list" where
  "update_neighborhood_stats nulls_distinct now props table =
     fold (insert_on_conflict nulls_distinct now) (select_stats now props) table"


section \<open>Counts of keywords\<close>

text \<open>
  How many keywords of a set occur in a text: a keyword counts once, however often it
  occurs.
\<close>

definition keywords_present :: "string list \<Rightarrow> string \<Rightarrow> nat" where
  "keywords_present keywords text = card {kw \<in> set keywords. sublist kw text}"

text \<open>
  The occurrences of a keyword in a text: the places of the text at which the keyword
  begins.
\<close>

fun occurrences :: "string \<Rightarrow> string \<Rightarrow> nat" where
  "occurrences kw [] = (if kw = [] then 1 else 0)"
| "occurrences kw (c # cs) = (if prefix kw (c # cs) then 1 else 0) + occurrences kw cs"

text \<open>
  The count the specification describes for a keyword set: the occurrences of its
  keywords in the text, every occurrence counted.
\<close>

definition spec_occurrence_count :: "string list \<Rightarrow> string \<Rightarrow> nat" where
  "spec_occurrence_count keywords text = sum_list (map (\<lambda>kw. occurrences kw text) keywords)"

text \<open>
  The classification the specification describes: \<open>RENT\<close> when the rent keywords occur
  more often than the sale keywords in the lowered text, \<open>SALE\<close> otherwise.
\<close>

definition spec_listing_type ::
  "(string \<Rightarrow> string) \<Rightarrow> string \<Rightarrow> string \<Rightarrow> string \<Rightarrow> string" where
  "spec_listing_type lower url title description =
     (let text = lower (url @ '' '' @ title @ '' '' @ description)
      in if spec_occurrence_count sale_keywords text < spec_occurrence_count rent_keywords text
         then ''RENT'' else ''SALE'')"

section \<open>Parameters of the examples\<close>

text \<open>
  A lower-casing for the examples, on UTF-8 bytes: the letters \<open>A\<close> to \<open>Z\<close> and the capital
  letters of Latin-1 (\<open>U+00C0\<close> to \<open>U+00DE\<close> without the sign \<open>U+00D7\<close>; the bytes \<open>C3 80\<close>
  to \<open>C3 9E\<close>) are lowered, every other character is kept. It is \<open>str.lower()\<close> on a text
  in which no other character has a lower-case form, as in the examples.
\<close>

definition lower_ascii :: "char \<Rightarrow> char" where
  "lower_ascii c =
     (if (65::nat) \<le> of_char c \<and> of_char c \<le> (90::nat) then char_of (of_char c + (32::nat)) else c)"

fun lower_latin1 :: "string \<Rightarrow> string" where
  "lower_latin1 [] = []"
| "lower_latin1 [c] = [lower_ascii c]"
| "lower_latin1 (c # d # cs) =
     (if c = CHR 0xC3 \<and> (128::nat) \<le> of_char d \<and> of_char d \<le> (158::nat) \<and> d \<noteq> CHR 0x97
      then c # char_of (of_char d + (32::nat)) # lower_latin1 cs
      else lower_ascii c # lower_latin1 (d # cs))"

text \<open>
  Two choices at the ties of \<open>round\<close>, for the examples. The lower neighbour is what
  Python returns when the double it rounds lies below the halfway point, as in
  \<open>round(50.15, 1) = 50.1\<close>. The even neighbour is what it returns when the double is the
  halfway point itself, as in \<open>round(98.75, 1) = 98.8\<close> and \<open>round(96.25, 1) = 96.2\<close>.
\<close>

definition ties_down :: "rat \<Rightarrow> bool" where
  "ties_down x = False"


text \<open>A printed form that writes nothing, for inputs that hold no number and no list.\<close>

definition blank :: "pyval \<Rightarrow> string" where
  "blank v = []"

section \<open>Properties of the deal rating\<close>

lemma py_round1_cases:
  "(py_round1 t x * 10 = of_int \<lfloor>x * 10\<rfloor> \<and> x * 10 - of_int \<lfloor>x * 10\<rfloor> \<le> 1 / 2)
   \<or> (py_round1 t x * 10 = of_int \<lfloor>x * 10\<rfloor> + 1 \<and> 1 / 2 \<le> x * 10 - of_int \<lfloor>x * 10\<rfloor>)"
  by (auto simp: py_round1_def Let_def)



lemma int_gap:
  fixes y :: rat
  shows "y - of_int \<lfloor>y\<rfloor> \<le> \<bar>of_int k - y\<bar> \<or> of_int \<lfloor>y\<rfloor> + 1 - y \<le> \<bar>of_int k - y\<bar>"
proof (cases "k \<le> \<lfloor>y\<rfloor>")
  case True
  then have "(of_int k :: rat) \<le> of_int \<lfloor>y\<rfloor>"
    by simp
  then show ?thesis
    by linarith
next
  case False
  then have "\<lfloor>y\<rfloor> + 1 \<le> k"
    by simp
  then have "(of_int (\<lfloor>y\<rfloor> + 1) :: rat) \<le> of_int k"
    by (simp only: of_int_le_iff)
  then have "(of_int \<lfloor>y\<rfloor> :: rat) + 1 \<le> of_int k"
    by simp
  then show ?thesis
    by linarith
qed

lemma py_round1_nearest: "\<bar>py_round1 t x - x\<bar> \<le> \<bar>of_int k / 10 - x\<bar>"
proof -
  have lo: "of_int \<lfloor>x * 10\<rfloor> \<le> x * 10" and hi: "x * 10 < of_int \<lfloor>x * 10\<rfloor> + 1"
    by linarith+
  define q :: rat where "q = of_int k / 10"
  have q: "q * 10 = of_int k"
    by (simp add: q_def)
  have "\<bar>py_round1 t x - x\<bar> \<le> \<bar>q - x\<bar>"
    using py_round1_cases [of t x] int_gap [of "x * 10" k] lo hi q by linarith
  then show ?thesis
    by (simp add: q_def)
qed

lemma py_round1_unique:
  assumes "\<bar>of_int k / 10 - x\<bar> < 1 / 20"
  shows "py_round1 t x = of_int k / 10"
proof -
  have lo: "of_int \<lfloor>x * 10\<rfloor> \<le> x * 10" and hi: "x * 10 < of_int \<lfloor>x * 10\<rfloor> + 1"
    by linarith+
  define q :: rat where "q = of_int k / 10"
  have q: "q * 10 = of_int k"
    by (simp add: q_def)
  have k: "\<bar>q - x\<bar> < 1 / 20"
    using assms by (simp add: q_def)
  have "(of_int k :: rat) < of_int \<lfloor>x * 10\<rfloor> + 2"
    using k q hi by linarith
  then have "(of_int k :: rat) < of_int (\<lfloor>x * 10\<rfloor> + 2)"
    by simp
  then have k2: "k < \<lfloor>x * 10\<rfloor> + 2"
    by (simp only: of_int_less_iff)
  have "(of_int \<lfloor>x * 10\<rfloor> :: rat) - 1 < of_int k"
    using k q lo by linarith
  then have "(of_int (\<lfloor>x * 10\<rfloor> - 1) :: rat) < of_int k"
    by simp
  then have k1: "\<lfloor>x * 10\<rfloor> - 1 < k"
    by (simp only: of_int_less_iff)
  from k1 k2 have "k = \<lfloor>x * 10\<rfloor> \<or> k = \<lfloor>x * 10\<rfloor> + 1"
    by linarith
  then have "py_round1 t x * 10 = q * 10"
  proof
    assume e: "k = \<lfloor>x * 10\<rfloor>"
    then have "q * 10 = of_int \<lfloor>x * 10\<rfloor>"
      using q by simp
    then show ?thesis
      using py_round1_cases [of t x] k lo hi by linarith
  next
    assume e: "k = \<lfloor>x * 10\<rfloor> + 1"
    then have "q * 10 = of_int \<lfloor>x * 10\<rfloor> + 1"
      using q by simp
    then show ?thesis
      using py_round1_cases [of t x] k lo hi by linarith
  qed
  then show ?thesis
    by (simp add: q_def)
qed

lemma py_round1_range: "0 \<le> x \<Longrightarrow> x \<le> 100 \<Longrightarrow> 0 \<le> py_round1 t x \<and> py_round1 t x \<le> 100"
proof -
  assume a: "0 \<le> x" "x \<le> 100"
  have "\<bar>py_round1 t x - x\<bar> \<le> \<bar>of_int 0 / 10 - x\<bar>"
    by (rule py_round1_nearest)
  moreover have "\<bar>py_round1 t x - x\<bar> \<le> \<bar>of_int 1000 / 10 - x\<bar>"
    by (rule py_round1_nearest)
  ultimately show ?thesis
    using a by (simp add: abs_if split: if_splits)
qed

lemma clamp_rating_range: "0 \<le> clamp_rating x \<and> clamp_rating x \<le> 100"
  by (simp add: clamp_rating_def)

lemma py_round1_0: "py_round1 t 0 = 0"
  by (simp add: py_round1_def)

lemma py_round1_100: "py_round1 t 100 = 100"
  by (simp add: py_round1_def)

lemma calculate_deal_rating_numeric:
  assumes "dict_get d ''city'' = PStr c" "c \<noteq> []"
    and "dict_get d ''surfaceArea'' = PNum s" "s \<noteq> 0"
    and "dict_get d ''price'' = PNum p" "p \<noteq> 0"
    and "get_neighborhood_avg stats (PStr c) = Some avg" "avg \<noteq> 0"
  shows "calculate_deal_rating tie_up stats d = Inr (PNum (py_round1 tie_up (spec_deal_rating avg (p / s))))"
  using assms by (simp add: calculate_deal_rating_def spec_deal_rating_def Let_def)

lemma calculate_deal_rating_falsy:
  assumes "\<not> truthy (dict_get d ''city'') \<or> \<not> truthy (dict_get d ''surfaceArea'')
           \<or> \<not> truthy (dict_get d ''price'')"
  shows "calculate_deal_rating tie_up stats d = Inr PNone"
  using assms by (auto simp add: calculate_deal_rating_def Let_def)


lemma calculate_deal_rating_range:
  assumes "calculate_deal_rating tie_up stats d = Inr (PNum r)"
  shows "0 \<le> r \<and> r \<le> 100"
  using assms py_round1_range clamp_rating_range
  by (auto simp add: calculate_deal_rating_def Let_def split: if_splits sum.splits option.splits)

lemma spec_deal_rating_overpriced:
  "0 < avg \<Longrightarrow> 6 / 5 * avg \<le> ppa \<Longrightarrow> spec_deal_rating avg ppa = 0"
  by (simp add: spec_deal_rating_def clamp_rating_def field_simps max_def min_def)

lemma spec_deal_rating_underpriced:
  "0 < avg \<Longrightarrow> ppa \<le> 4 / 5 * avg \<Longrightarrow> spec_deal_rating avg ppa = 100"
  by (simp add: spec_deal_rating_def clamp_rating_def field_simps max_def min_def)




text \<open>
  Claim C7, as the code has it. A property whose price is \<open>0\<close> gets no rating at all: the
  guard reads the price \<open>0\<close> as missing and returns null. Every rating the engine returns
  lies in \<open>[0, 100]\<close>. With a positive average, a property whose price per square metre
  is at least \<open>1.2\<close> times the average is rated \<open>0\<close>, and one at most \<open>0.8\<close> times the
  average (the price not being \<open>0\<close>) is rated \<open>100\<close>.
\<close>

theorem calculate_deal_rating_clamped:
  "(dict_get d ''price'' = PNum 0 \<longrightarrow> calculate_deal_rating tie_up stats d = Inr PNone)
   \<and> (calculate_deal_rating tie_up stats d = Inr (PNum r) \<longrightarrow> 0 \<le> r \<and> r \<le> 100)
   \<and> (dict_get d ''city'' = PStr c \<and> c \<noteq> [] \<and> dict_get d ''surfaceArea'' = PNum s \<and> s \<noteq> 0
        \<and> dict_get d ''price'' = PNum p \<and> p \<noteq> 0
        \<and> get_neighborhood_avg stats (PStr c) = Some avg \<and> 0 < avg
      \<longrightarrow> (6 / 5 * avg \<le> p / s \<longrightarrow> calculate_deal_rating tie_up stats d = Inr (PNum 0))
        \<and> (p / s \<le> 4 / 5 * avg \<longrightarrow> calculate_deal_rating tie_up stats d = Inr (PNum 100)))"
proof (intro conjI impI)
  assume "dict_get d ''price'' = PNum 0"
  then show "calculate_deal_rating tie_up stats d = Inr PNone"
    by (simp add: calculate_deal_rating_falsy)
next
  assume "calculate_deal_rating tie_up stats d = Inr (PNum r)"
  then show "0 \<le> r" "r \<le> 100"
    using calculate_deal_rating_range by blast+
next
  assume h: "dict_get d ''city'' = PStr c \<and> c \<noteq> [] \<and> dict_get d ''surfaceArea'' = PNum s \<and> s \<noteq> 0
        \<and> dict_get d ''price'' = PNum p \<and> p \<noteq> 0
        \<and> get_neighborhood_avg stats (PStr c) = Some avg \<and> 0 < avg"
  then have e: "calculate_deal_rating tie_up stats d
      = Inr (PNum (py_round1 tie_up (spec_deal_rating avg (p / s))))"
    by (simp add: calculate_deal_rating_numeric)
  {
    assume "6 / 5 * avg \<le> p / s"
    then show "calculate_deal_rating tie_up stats d = Inr (PNum 0)"
      using h e by (simp add: spec_deal_rating_overpriced py_round1_0)
  }
  {
    assume "p / s \<le> 4 / 5 * avg"
    then show "calculate_deal_rating tie_up stats d = Inr (PNum 100)"
      using h e by (simp add: spec_deal_rating_underpriced py_round1_100)
  }
qed

theorem calculate_deal_rating_clamped_witness:
  "calculate_deal_rating ties_down
     [\<lparr>city = ''Tunis'', region = None, avg_price_per_sqm = 2500, median_price = 200000,
       total_listings = 100, active_listings = 100, avg_rent_price = None,
       avg_sale_price = None, updated_at = 0\<rparr>]
     [(''city'', PStr ''Tunis''), (''surfaceArea'', PNum 100), (''price'', PNum 900000)]
   = Inr (PNum 0)
   \<and> calculate_deal_rating ties_down
     [\<lparr>city = ''Tunis'', region = None, avg_price_per_sqm = 2500, median_price = 200000,
       total_listings = 100, active_listings = 100, avg_rent_price = None,
       avg_sale_price = None, updated_at = 0\<rparr>]
     [(''city'', PStr ''Tunis''), (''surfaceArea'', PNum 100), (''price'', PNum 0)]
   = Inr PNone"
  (is "calculate_deal_rating _ ?stats ?d1 = _ \<and> calculate_deal_rating _ _ ?d2 = _")
proof -
  have a: "calculate_deal_rating ties_down ?stats ?d1 = Inr (PNum 0)"
    using calculate_deal_rating_clamped [of ?d1 ties_down ?stats 0 "''Tunis''" 100 900000 2500]
    by (simp add: dict_get_def get_neighborhood_avg_def)
  have b: "calculate_deal_rating ties_down ?stats ?d2 = Inr PNone"
    using calculate_deal_rating_clamped [of ?d2 ties_down ?stats 0 "''Tunis''" 100 0 2500]
    by (simp add: dict_get_def)
  show ?thesis
    using a b by simp
qed

text \<open>
  The first half of claim C7 does not hold: for a price of \<open>0\<close> on \<open>100\<close> square metres,
  with the stats of the city present, the code returns null, not \<open>100\<close>.
\<close>

theorem calculate_deal_rating_zero_price_counterexample:
  "calculate_deal_rating ties_down
     [\<lparr>city = ''Tunis'', region = None, avg_price_per_sqm = 2500, median_price = 200000,
       total_listings = 100, active_listings = 100, avg_rent_price = None,
       avg_sale_price = None, updated_at = 0\<rparr>]
     [(''city'', PStr ''Tunis''), (''surfaceArea'', PNum 100), (''price'', PNum 0),
      (''pricePerSqm'', PNum 0)]
   = Inr PNone"
  by code_simp

section \<open>Properties of the normalizer\<close>

lemma dict_get_update:
  "dict_get (AList.update k v d) k' = (if k' = k then v else dict_get d k')"
  by (simp add: dict_get_def update_conv')

lemma dict_index_update:
  "dict_index (AList.update k v d) k' = (if k' = k then Inr v else dict_index d k')"
  by (simp add: dict_index_def update_conv')

lemma keyword_score_card:
  "distinct keywords \<Longrightarrow> keyword_score keywords text = card {kw \<in> set keywords. sublist kw text}"
  unfolding keyword_score_def
  by (metis distinct_filter distinct_card set_filter)

lemma distinct_rent_keywords: "distinct rent_keywords"
  by (simp add: rent_keywords_def)

lemma distinct_sale_keywords: "distinct sale_keywords"
  by (simp add: sale_keywords_def)

lemma extract_listing_type_values:
  "extract_listing_type lower url title description = ''RENT'' \<or> extract_listing_type lower url title description = ''SALE''"
  by (simp add: extract_listing_type_def Let_def)

lemma extract_listing_type_counts:
  "extract_listing_type lower url title description =
     (if keywords_present sale_keywords (lower (url @ '' '' @ title @ '' '' @ description))
          < keywords_present rent_keywords (lower (url @ '' '' @ title @ '' '' @ description))
      then ''RENT'' else ''SALE'')"
  by (simp add: extract_listing_type_def Let_def keywords_present_def
      keyword_score_card distinct_rent_keywords distinct_sale_keywords)

lemma extract_listing_type_text:
  assumes "lower (url @ '' '' @ title @ '' '' @ description)
      = lower (url' @ '' '' @ title' @ '' '' @ description')"
  shows "extract_listing_type lower url title description
      = extract_listing_type lower url' title' description'"
  using assms by (simp add: extract_listing_type_def)

lemma py_gt_zero_Inr: "py_gt_zero v = Inr b \<Longrightarrow> \<exists>a. v = PNum a \<and> b = (0 < a)"
  by (cases v) auto

lemma py_truediv_Inr: "py_truediv x (PNum a) = Inr q \<Longrightarrow> \<exists>p. x = PNum p \<and> a \<noteq> 0 \<and> q = p / a"
  by (cases x) (auto split: if_splits)

lemma py_truediv_no_zero_division: "a \<noteq> 0 \<Longrightarrow> py_truediv x (PNum a) \<noteq> Inl ZeroDivisionError"
  by (cases x) auto

lemma extract_property_type_str: "\<exists>pt. extract_property_type lower (PStr t) = Inr pt"
  by (simp add: extract_property_type_def Let_def split: list.split prod.split)

lemma normalize_shape:
  assumes "normalize lower repr d = Inr n"
  shows "\<exists>title pt url. dict_index d ''title'' = Inr title \<and> extract_property_type lower title = Inr pt
      \<and> dict_index d ''sourceUrl'' = Inr url
      \<and> (let n0 = AList.update ''status'' (PStr ''ACTIVE'')
                  (AList.update ''source'' (PStr ''TUNISIE_ANNONCE'')
                  (AList.update ''listingType''
                     (PStr (extract_listing_type lower (py_format repr url) (py_format repr title)
                        (py_format repr (dict_get_default d ''description'' (PStr [])))))
                  (AList.update ''propertyType'' pt d)))
          in (n = n0 \<and> (\<not> truthy (dict_get d ''surfaceArea'')
                         \<or> (\<exists>a. dict_get d ''surfaceArea'' = PNum a \<and> \<not> 0 < a)))
             \<or> (\<exists>a p. dict_get d ''surfaceArea'' = PNum a \<and> 0 < a
                   \<and> dict_index d ''price'' = Inr (PNum p)
                   \<and> n = AList.update ''pricePerSqm'' (PNum (p / a)) n0))"
proof -
  from assms obtain title where t: "dict_index d ''title'' = Inr title"
    by (auto simp: normalize_def split: sum.splits)
  from assms t obtain pt where pt: "extract_property_type lower title = Inr pt"
    by (auto simp: normalize_def split: sum.splits)
  from assms t pt obtain url where u: "dict_index d ''sourceUrl'' = Inr url"
    by (auto simp: normalize_def split: sum.splits)
  define n0 where "n0 = AList.update ''status'' (PStr ''ACTIVE'')
                  (AList.update ''source'' (PStr ''TUNISIE_ANNONCE'')
                  (AList.update ''listingType''
                     (PStr (extract_listing_type lower (py_format repr url) (py_format repr title)
                        (py_format repr (dict_get_default d ''description'' (PStr [])))))
                  (AList.update ''propertyType'' pt d)))"
  have sa: "dict_get n0 ''surfaceArea'' = dict_get d ''surfaceArea''"
    by (simp add: n0_def dict_get_update)
  have pr: "dict_index n0 ''price'' = dict_index d ''price''"
    by (simp add: n0_def dict_index_update)
  have eq: "normalize lower repr d =
      (if \<not> truthy (dict_get d ''surfaceArea'') then Inr n0
       else (case py_gt_zero (dict_get d ''surfaceArea'') of
           Inl e \<Rightarrow> Inl e
         | Inr positive \<Rightarrow>
             (if \<not> positive then Inr n0
              else (case dict_index d ''price'' of
               Inl e \<Rightarrow> Inl e
             | Inr v \<Rightarrow>
                 (case py_truediv v (dict_get d ''surfaceArea'') of
                    Inl e \<Rightarrow> Inl e
                  | Inr q \<Rightarrow> Inr (AList.update ''pricePerSqm'' (PNum q) n0))))))"
    by (simp add: normalize_def t pt u Let_def n0_def dict_get_update dict_index_update
        cong: sum.case_cong if_cong)
  have "(n = n0 \<and> (\<not> truthy (dict_get d ''surfaceArea'')
                         \<or> (\<exists>a. dict_get d ''surfaceArea'' = PNum a \<and> \<not> 0 < a)))
             \<or> (\<exists>a p. dict_get d ''surfaceArea'' = PNum a \<and> 0 < a
                   \<and> dict_index d ''price'' = Inr (PNum p)
                   \<and> n = AList.update ''pricePerSqm'' (PNum (p / a)) n0)"
  proof (cases "truthy (dict_get d ''surfaceArea'')")
    case False
    then show ?thesis using assms eq by simp
  next
    case True
    with assms eq obtain b where b: "py_gt_zero (dict_get d ''surfaceArea'') = Inr b"
      by (auto split: sum.splits)
    then obtain a where a: "dict_get d ''surfaceArea'' = PNum a" "b = (0 < a)"
      using py_gt_zero_Inr by blast
    show ?thesis
    proof (cases b)
      case False
      then show ?thesis using assms eq True a b by auto
    next
      case pos: True
      with assms eq True b obtain v where p: "dict_index d ''price'' = Inr v"
        by (auto split: sum.splits)
      with assms eq True b pos obtain q where q: "py_truediv v (dict_get d ''surfaceArea'') = Inr q"
          "n = AList.update ''pricePerSqm'' (PNum q) n0"
        by (auto split: sum.splits)
      then obtain p' where "v = PNum p'" "q = p' / a"
        using py_truediv_Inr a by metis
      then show ?thesis using a pos p q by auto
    qed
  qed
  then show ?thesis
    using t pt u by (auto simp: Let_def n0_def)
qed

lemma normalize_fields:
  assumes "normalize lower repr d = Inr n"
  shows "(dict_get n ''listingType'' = PStr ''RENT'' \<or> dict_get n ''listingType'' = PStr ''SALE'')
       \<and> dict_get n ''source'' = PStr ''TUNISIE_ANNONCE''"
proof -
  from normalize_shape [OF assms] obtain lt n' where
    "n = AList.update ''status'' (PStr ''ACTIVE'')
            (AList.update ''source'' (PStr ''TUNISIE_ANNONCE'')
            (AList.update ''listingType'' (PStr lt) n'))
     \<or> (\<exists>q. n = AList.update ''pricePerSqm'' q (AList.update ''status'' (PStr ''ACTIVE'')
            (AList.update ''source'' (PStr ''TUNISIE_ANNONCE'')
            (AList.update ''listingType'' (PStr lt) n'))))"
    "lt = ''RENT'' \<or> lt = ''SALE''"
    using extract_listing_type_values unfolding Let_def by blast
  then show ?thesis
    by (auto simp: dict_get_update)
qed

lemma normalize_returns:
  assumes "map_of d ''title'' = Some (PStr t)" "map_of d ''sourceUrl'' = Some u"
     "map_of d ''price'' = Some (PNum p)" "dict_get d ''surfaceArea'' = PNone \<or> (\<exists>a. dict_get d ''surfaceArea'' = PNum a)"
  shows "\<exists>n. normalize lower repr d = Inr n"
proof -
  have 1: "dict_index d ''title'' = Inr (PStr t)" "dict_index d ''sourceUrl'' = Inr u"
     "dict_index d ''price'' = Inr (PNum p)"
    using assms by (simp_all add: dict_index_def)
  obtain pt where 2: "extract_property_type lower (PStr t) = Inr pt"
    using extract_property_type_str by blast
  from assms(4) show ?thesis
  proof
    assume "dict_get d ''surfaceArea'' = PNone"
    then show ?thesis
      by (simp add: normalize_def 1 2 Let_def dict_get_update)
  next
    assume "\<exists>a. dict_get d ''surfaceArea'' = PNum a"
    then obtain a where "dict_get d ''surfaceArea'' = PNum a" by blast
    then show ?thesis
      by (simp add: normalize_def 1 2 Let_def dict_get_update dict_index_update)
  qed
qed

lemma normalize_no_area:
  assumes "normalize lower repr d = Inr n"
    and "dict_get d ''surfaceArea'' = PNone \<or> (\<exists>a. dict_get d ''surfaceArea'' = PNum a \<and> a \<le> 0)"
  shows "map_of n ''pricePerSqm'' = map_of d ''pricePerSqm''"
  using normalize_shape [OF assms(1)] assms(2)
  by (auto simp: Let_def update_conv')

lemma normalize_area:
  assumes "normalize lower repr d = Inr n"
    and "dict_get d ''surfaceArea'' = PNum a" "0 < a"
  shows "\<exists>p. map_of d ''price'' = Some (PNum p) \<and> map_of n ''pricePerSqm'' = Some (PNum (p / a))"
  using normalize_shape [OF assms(1)] assms(2,3)
  by (auto simp: Let_def update_conv' dict_index_def split: option.splits)

lemma normalize_no_zero_division: "normalize lower repr d \<noteq> Inl ZeroDivisionError"
proof
  assume z: "normalize lower repr d = Inl ZeroDivisionError"
  then obtain title where t: "dict_index d ''title'' = Inr title"
    by (auto simp: normalize_def dict_index_def split: sum.splits option.splits)
  from z t obtain pt where pt: "extract_property_type lower title = Inr pt"
    by (auto simp: normalize_def extract_property_type_def Let_def split: sum.splits pyval.splits list.splits)
  from z t pt obtain url where u: "dict_index d ''sourceUrl'' = Inr url"
    by (auto simp: normalize_def dict_index_def split: sum.splits option.splits)
  from z t pt u have tr: "truthy (dict_get d ''surfaceArea'')"
    by (auto simp: normalize_def Let_def dict_get_update split: if_splits)
  from z t pt u tr obtain a where a: "dict_get d ''surfaceArea'' = PNum a"
    by (cases "dict_get d ''surfaceArea''") (auto simp: normalize_def Let_def dict_get_update)
  with tr have "a \<noteq> 0" by simp
  then have "\<And>x. py_truediv x (PNum a) \<noteq> Inl ZeroDivisionError"
    by (rule py_truediv_no_zero_division)
  with z t pt u tr a show False
    by (auto simp: normalize_def Let_def dict_get_update dict_index_update dict_index_def split: if_splits sum.splits option.splits)
qed

section \<open>Properties of the payload\<close>

lemma map_of_filter_not_none:
  "distinct (map fst xs) \<Longrightarrow>
   map_of (filter (\<lambda>(k, v). v \<noteq> PNone) xs) k =
     (case map_of xs k of None \<Rightarrow> None | Some v \<Rightarrow> if v = PNone then None else Some v)"
proof (induction xs)
  case Nil
  then show ?case by simp
next
  case (Cons x xs)
  obtain k0 v0 where x: "x = (k0, v0)" by (cases x)
  have tail: "k0 \<notin> fst ` set xs" using Cons.prems x by simp
  then have none: "map_of xs k0 = None" by (simp add: map_of_eq_None_iff)
  show ?case
  proof (cases "k = k0")
    case True
    then show ?thesis using Cons x none by simp
  next
    case False
    then show ?thesis using Cons x by simp
  qed
qed

lemma distinct_payload_fields:
  "distinct (map fst (payload_fields fv now d su lt ti pr))"
  by (simp add: payload_fields_def Let_def)

lemma map_of_payload_fields_retime:
  "k \<noteq> ''updatedAt'' \<Longrightarrow> k \<noteq> ''scrapedAt'' \<Longrightarrow>
   map_of (payload_fields fv now1 d su lt ti pr) k = map_of (payload_fields fv now2 d su lt ti pr) k"
  by (simp add: payload_fields_def Let_def)

lemma upsert_payload_cases:
  assumes "upsert_payload fv now d = Inr p"
  shows "\<exists>su lt ti pr. dict_index d ''sourceUrl'' = Inr su \<and> dict_index d ''listingType'' = Inr lt
     \<and> dict_index d ''title'' = Inr ti \<and> dict_index d ''price'' = Inr pr
     \<and> p = filter (\<lambda>(k, v). v \<noteq> PNone) (payload_fields fv now d su lt ti pr)"
  using assms by (auto simp: upsert_payload_def split: sum.splits)

lemma payload_distinct:
  assumes "upsert_payload fv now d = Inr p"
  shows "distinct (map fst p)"
  using upsert_payload_cases [OF assms] distinct_payload_fields
  by (auto simp: distinct_map_filter)

lemma payload_no_none:
  assumes "upsert_payload fv now d = Inr p"
  shows "(k, PNone) \<notin> set p"
  using upsert_payload_cases [OF assms] by auto

lemma payload_lookup:
  assumes "upsert_payload fv now d = Inr p"
  shows "\<exists>su lt ti pr. dict_index d ''sourceUrl'' = Inr su \<and> dict_index d ''listingType'' = Inr lt
     \<and> dict_index d ''title'' = Inr ti \<and> dict_index d ''price'' = Inr pr
     \<and> (\<forall>k. map_of p k = (case map_of (payload_fields fv now d su lt ti pr) k of
            None \<Rightarrow> None | Some v \<Rightarrow> if v = PNone then None else Some v))"
  using upsert_payload_cases [OF assms] map_of_filter_not_none [OF distinct_payload_fields]
  by fastforce

lemma payload_retime:
  assumes "upsert_payload fv now1 d = Inr p1" "upsert_payload fv now2 d = Inr p2"
    and "k \<noteq> ''updatedAt''" "k \<noteq> ''scrapedAt''"
  shows "map_of p2 k = map_of p1 k"
proof -
  from payload_lookup [OF assms(1)] obtain su lt ti pr where
    1: "dict_index d ''sourceUrl'' = Inr su" "dict_index d ''listingType'' = Inr lt"
       "dict_index d ''title'' = Inr ti" "dict_index d ''price'' = Inr pr"
       "map_of p1 k = (case map_of (payload_fields fv now1 d su lt ti pr) k of
            None \<Rightarrow> None | Some v \<Rightarrow> if v = PNone then None else Some v)"
    by blast
  from payload_lookup [OF assms(2)] 1(1-4) have
    2: "map_of p2 k = (case map_of (payload_fields fv now2 d su lt ti pr) k of
            None \<Rightarrow> None | Some v \<Rightarrow> if v = PNone then None else Some v)"
    by auto
  show ?thesis
    using 1(5) 2 map_of_payload_fields_retime [OF assms(3,4), of fv now1 d su lt ti pr now2]
    by simp
qed

lemma payload_times:
  assumes "upsert_payload fv now d = Inr p"
  shows "map_of p ''updatedAt'' = Some (PStr now) \<and> map_of p ''scrapedAt'' = Some (PStr now)"
proof -
  from payload_lookup [OF assms(1)] obtain su lt ti pr where
    l: "\<And>k. map_of p k = (case map_of (payload_fields fv now d su lt ti pr) k of
            None \<Rightarrow> None | Some v \<Rightarrow> if v = PNone then None else Some v)"
    by blast
  have "map_of (payload_fields fv now d su lt ti pr) ''updatedAt'' = Some (PStr now)"
    by (simp add: payload_fields_def Let_def update_conv')
  then have a: "map_of p ''updatedAt'' = Some (PStr now)"
    using l [of "''updatedAt''"] by simp
  have "map_of (payload_fields fv now d su lt ti pr) ''scrapedAt'' = Some (PStr now)"
    by (simp add: payload_fields_def Let_def update_conv')
  then have b: "map_of p ''scrapedAt'' = Some (PStr now)"
    using l [of "''scrapedAt''"] by simp
  show ?thesis
    using a b by (rule conjI)
qed

lemma payload_sourceUrl:
  assumes "upsert_payload fv now d = Inr p" "map_of d ''sourceUrl'' = Some u"
  shows "dict_get p ''sourceUrl'' = u"
proof -
  from payload_lookup [OF assms(1)] assms(2) obtain lt ti pr where
    "map_of p ''sourceUrl'' = (case map_of (payload_fields fv now d u lt ti pr) ''sourceUrl'' of
            None \<Rightarrow> None | Some v \<Rightarrow> if v = PNone then None else Some v)"
    by (auto simp: dict_index_def)
  moreover have "map_of (payload_fields fv now d u lt ti pr) ''sourceUrl'' = Some u"
    by (simp add: payload_fields_def Let_def update_conv')
  ultimately show ?thesis
    by (simp add: dict_get_def)
qed

lemma payload_no_createdAt:
  assumes "upsert_payload fv now d = Inr p"
  shows "map_of p ''createdAt'' = None"
proof -
  from payload_lookup [OF assms(1)] obtain su lt ti pr where
    "map_of p ''createdAt'' = (case map_of (payload_fields fv now d su lt ti pr) ''createdAt'' of
            None \<Rightarrow> None | Some v \<Rightarrow> if v = PNone then None else Some v)"
    by blast
  moreover have "map_of (payload_fields fv now d su lt ti pr) ''createdAt'' = None"
    by (simp add: payload_fields_def Let_def update_conv')
  ultimately show ?thesis
    by simp
qed

lemma payload_list_default:
  assumes "upsert_payload fv now d = Inr p"
  shows "map_of p ''aiTags'' = (if dict_get_default d ''aiTags'' (PList []) = PNone then None
                                else Some (dict_get_default d ''aiTags'' (PList [])))"
    and "map_of p ''features'' = (if dict_get_default d ''features'' (PList []) = PNone then None
                                else Some (dict_get_default d ''features'' (PList [])))"
proof -
  from payload_lookup [OF assms(1)] obtain su lt ti pr where
    l: "\<And>k. map_of p k = (case map_of (payload_fields fv now d su lt ti pr) k of
            None \<Rightarrow> None | Some v \<Rightarrow> if v = PNone then None else Some v)"
    by blast
  have "map_of (payload_fields fv now d su lt ti pr) ''aiTags''
      = Some (dict_get_default d ''aiTags'' (PList []))"
    by (simp add: payload_fields_def Let_def update_conv')
  then show "map_of p ''aiTags'' = (if dict_get_default d ''aiTags'' (PList []) = PNone then None
                                else Some (dict_get_default d ''aiTags'' (PList [])))"
    using l [of "''aiTags''"] by simp
  have "map_of (payload_fields fv now d su lt ti pr) ''features''
      = Some (dict_get_default d ''features'' (PList []))"
    by (simp add: payload_fields_def Let_def update_conv')
  then show "map_of p ''features'' = (if dict_get_default d ''features'' (PList []) = PNone then None
                                else Some (dict_get_default d ''features'' (PList [])))"
    using l [of "''features''"] by simp
qed

lemma payload_required_fields:
  assumes "upsert_payload fv now n = Inr p"
    and "dict_get n ''listingType'' = PStr lt" and "dict_get n ''source'' = PStr src"
  shows "map_of p ''listingType'' = Some (PStr lt) \<and> map_of p ''source'' = Some (PStr src)"
proof -
  from payload_lookup [OF assms(1)] obtain su l ti pr where
    li: "dict_index n ''listingType'' = Inr l" and
    look: "\<And>k. map_of p k = (case map_of (payload_fields fv now n su l ti pr) k of
            None \<Rightarrow> None | Some v \<Rightarrow> if v = PNone then None else Some v)"
    by blast
  have l: "l = PStr lt"
    using li assms(2) by (auto simp: dict_index_def dict_get_def split: option.splits)
  have "map_of (payload_fields fv now n su l ti pr) ''listingType'' = Some l"
    by (simp add: payload_fields_def Let_def)
  then have a: "map_of p ''listingType'' = Some (PStr lt)"
    using look [of "''listingType''"] l by simp
  have s: "dict_get_default n ''source'' (PStr ''TUNISIE_ANNONCE'') = PStr src"
    using assms(3) by (auto simp: dict_get_default_def dict_get_def split: option.splits)
  have "map_of (payload_fields fv now n su l ti pr) ''source''
      = Some (dict_get_default n ''source'' (PStr ''TUNISIE_ANNONCE''))"
    by (simp add: payload_fields_def Let_def)
  then have b: "map_of p ''source'' = Some (PStr src)"
    using look [of "''source''"] s by simp
  show ?thesis
    using a b by (rule conjI)
qed

section \<open>Claims about the normalizer\<close>

text \<open>
  Claim C4, as the code has it. The text of URL, title and description is lowered, and for
  each keyword set the keywords that occur in it are counted, a keyword once however often
  it occurs. The listing type is \<open>RENT\<close> exactly when more rent keywords than sale
  keywords occur; it is \<open>SALE\<close> when more sale keywords occur, and \<open>SALE\<close> on every tie,
  the tie of no keyword at all included. Letter case does not matter: two inputs whose
  texts are the same once lowered get the same listing type.
\<close>

theorem extract_listing_type_by_counts:
  "(extract_listing_type lower url title description = ''RENT''
      \<longleftrightarrow> keywords_present sale_keywords (lower (url @ '' '' @ title @ '' '' @ description))
            < keywords_present rent_keywords (lower (url @ '' '' @ title @ '' '' @ description)))
   \<and> (keywords_present rent_keywords (lower (url @ '' '' @ title @ '' '' @ description))
         < keywords_present sale_keywords (lower (url @ '' '' @ title @ '' '' @ description))
       \<longrightarrow> extract_listing_type lower url title description = ''SALE'')
   \<and> (keywords_present rent_keywords (lower (url @ '' '' @ title @ '' '' @ description))
         = keywords_present sale_keywords (lower (url @ '' '' @ title @ '' '' @ description))
       \<longrightarrow> extract_listing_type lower url title description = ''SALE'')
   \<and> (keywords_present rent_keywords (lower (url @ '' '' @ title @ '' '' @ description)) = 0
        \<and> keywords_present sale_keywords (lower (url @ '' '' @ title @ '' '' @ description)) = 0
       \<longrightarrow> extract_listing_type lower url title description = ''SALE'')
   \<and> (lower (url @ '' '' @ title @ '' '' @ description)
         = lower (url' @ '' '' @ title' @ '' '' @ description')
       \<longrightarrow> extract_listing_type lower url title description
           = extract_listing_type lower url' title' description')"
proof -
  let ?text = "lower (url @ '' '' @ title @ '' '' @ description)"
  have e: "extract_listing_type lower url title description =
     (if keywords_present sale_keywords ?text < keywords_present rent_keywords ?text
      then ''RENT'' else ''SALE'')"
    by (rule extract_listing_type_counts)
  have c: "?text = lower (url' @ '' '' @ title' @ '' '' @ description')
       \<longrightarrow> extract_listing_type lower url title description
           = extract_listing_type lower url' title' description'"
    using extract_listing_type_text by blast
  show ?thesis
  proof (cases "keywords_present sale_keywords ?text < keywords_present rent_keywords ?text")
    case True
    then show ?thesis
      using e c by simp
  next
    case False
    then show ?thesis
      using e c by simp
  qed
qed

theorem extract_listing_type_by_counts_witness:
  "extract_listing_type lower_latin1 ''http://test.com/1'' ''Villa 4 chambres'' [] = ''SALE''
   \<and> extract_listing_type lower_latin1 ''http://test.com/1''
        ([CHR 0xC3, CHR 0x80] @ '' LOUER vente'') [] = ''RENT''
   \<and> extract_listing_type lower_latin1 ''http://test.com/1'' ''Villa A VENDRE'' [] = ''SALE''
   \<and> extract_listing_type lower_latin1 ''http://test.com/1'' ''A LOUER ou a vendre''
        ''location vente'' = ''SALE''
   \<and> extract_listing_type lower_latin1 ''http://test.com/1''
        ([CHR 0xC3, CHR 0x80] @ '' LOUER vente'') []
     = extract_listing_type lower_latin1 ''HTTP://TEST.COM/1''
        ([CHR 0xC3, CHR 0xA0] @ '' louer VENTE'') []"
proof -
  let ?u = "''http://test.com/1''"
  let ?t1 = "[CHR 0xC3, CHR 0x80] @ '' LOUER vente''"
  have r0: "keywords_present rent_keywords
      (lower_latin1 (?u @ '' '' @ ''Villa 4 chambres'' @ '' '' @ [])) = 0"
    unfolding keywords_present_def keyword_score_card [OF distinct_rent_keywords, symmetric]
    by code_simp
  have s0: "keywords_present sale_keywords
      (lower_latin1 (?u @ '' '' @ ''Villa 4 chambres'' @ '' '' @ [])) = 0"
    unfolding keywords_present_def keyword_score_card [OF distinct_sale_keywords, symmetric]
    by code_simp
  have r1: "keywords_present rent_keywords (lower_latin1 (?u @ '' '' @ ?t1 @ '' '' @ [])) = 2"
    unfolding keywords_present_def keyword_score_card [OF distinct_rent_keywords, symmetric]
    by code_simp
  have s1: "keywords_present sale_keywords (lower_latin1 (?u @ '' '' @ ?t1 @ '' '' @ [])) = 1"
    unfolding keywords_present_def keyword_score_card [OF distinct_sale_keywords, symmetric]
    by code_simp
  have r2: "keywords_present rent_keywords
      (lower_latin1 (?u @ '' '' @ ''Villa A VENDRE'' @ '' '' @ [])) = 0"
    unfolding keywords_present_def keyword_score_card [OF distinct_rent_keywords, symmetric]
    by code_simp
  have s2: "keywords_present sale_keywords
      (lower_latin1 (?u @ '' '' @ ''Villa A VENDRE'' @ '' '' @ [])) = 2"
    unfolding keywords_present_def keyword_score_card [OF distinct_sale_keywords, symmetric]
    by code_simp
  have r3: "keywords_present rent_keywords
      (lower_latin1 (?u @ '' '' @ ''A LOUER ou a vendre'' @ '' '' @ ''location vente'')) = 3"
    unfolding keywords_present_def keyword_score_card [OF distinct_rent_keywords, symmetric]
    by code_simp
  have s3: "keywords_present sale_keywords
      (lower_latin1 (?u @ '' '' @ ''A LOUER ou a vendre'' @ '' '' @ ''location vente'')) = 3"
    unfolding keywords_present_def keyword_score_card [OF distinct_sale_keywords, symmetric]
    by code_simp
  have l: "lower_latin1 (?u @ '' '' @ ?t1 @ '' '' @ [])
      = lower_latin1 (''HTTP://TEST.COM/1'' @ '' ''
          @ ([CHR 0xC3, CHR 0xA0] @ '' louer VENTE'') @ '' '' @ [])"
    by code_simp
  have a: "extract_listing_type lower_latin1 ?u ''Villa 4 chambres'' [] = ''SALE''"
    using extract_listing_type_by_counts [of lower_latin1 ?u "''Villa 4 chambres''" "[]"]
      r0 s0 by simp
  have b: "extract_listing_type lower_latin1 ?u ?t1 [] = ''RENT''"
    using extract_listing_type_by_counts [of lower_latin1 ?u ?t1 "[]"] r1 s1 by simp
  have c: "extract_listing_type lower_latin1 ?u ''Villa A VENDRE'' [] = ''SALE''"
    using extract_listing_type_by_counts [of lower_latin1 ?u "''Villa A VENDRE''" "[]"]
      r2 s2 by simp
  have d: "extract_listing_type lower_latin1 ?u ''A LOUER ou a vendre'' ''location vente''
      = ''SALE''"
    using extract_listing_type_by_counts
      [of lower_latin1 ?u "''A LOUER ou a vendre''" "''location vente''"] r3 s3 by simp
  have e: "extract_listing_type lower_latin1 ?u ?t1 []
      = extract_listing_type lower_latin1 ''HTTP://TEST.COM/1''
          ([CHR 0xC3, CHR 0xA0] @ '' louer VENTE'') []"
    using extract_listing_type_by_counts [of lower_latin1 ?u ?t1 "[]" "''HTTP://TEST.COM/1''"
        "[CHR 0xC3, CHR 0xA0] @ '' louer VENTE''" "[]", THEN conjunct2, THEN conjunct2,
        THEN conjunct2, THEN conjunct2] l
    by (rule mp)
  show ?thesis
    using a b c d e by (intro conjI)
qed

text \<open>
  Claim C4 as stated does not hold: the code does not count occurrences. In the title
  \<open>louer louer louer vente vendre\<close> the rent keywords occur three times and the sale
  keywords twice, so that the classification by occurrences is \<open>RENT\<close>; the code counts
  one rent keyword against two sale keywords and returns \<open>SALE\<close>.
\<close>

theorem extract_listing_type_occurrences_counterexample:
  "extract_listing_type lower_latin1 ''http://test.com/1'' ''louer louer louer vente vendre'' []
     = ''SALE''
   \<and> spec_occurrence_count rent_keywords
       (lower_latin1 (''http://test.com/1'' @ '' '' @ ''louer louer louer vente vendre''
          @ '' '' @ [])) = 3
   \<and> spec_occurrence_count sale_keywords
       (lower_latin1 (''http://test.com/1'' @ '' '' @ ''louer louer louer vente vendre''
          @ '' '' @ [])) = 2
   \<and> spec_listing_type lower_latin1 ''http://test.com/1'' ''louer louer louer vente vendre'' []
     = ''RENT''"
  (is "?code \<and> ?rent \<and> ?sale \<and> ?spec")
proof -
  have a: ?code
    by code_simp
  have b: ?rent
    by code_simp
  have c: ?sale
    by code_simp
  have d: ?spec
    by code_simp
  show ?thesis
    using a b c d by (intro conjI)
qed

text \<open>
  Claim C5. Every record the normalizer returns has \<open>listingType\<close> \<open>RENT\<close> or \<open>SALE\<close> and
  \<open>source\<close> \<open>TUNISIE_ANNONCE\<close>; an input it cannot normalize raises and yields no record
  at all. For an input with a non-empty title, a source URL, a numeric price and a
  surfaceArea that is a number or missing, the normalizer does return a record. The
  payload built from a normalized record holds both fields, so neither is persisted as
  null.
\<close>

theorem normalize_required_fields:
  "(normalize lower repr d = Inr n
      \<longrightarrow> (dict_get n ''listingType'' = PStr ''RENT'' \<or> dict_get n ''listingType'' = PStr ''SALE'')
        \<and> dict_get n ''source'' = PStr ''TUNISIE_ANNONCE'')
   \<and> (map_of d ''title'' = Some (PStr t) \<and> t \<noteq> [] \<and> map_of d ''sourceUrl'' = Some u
        \<and> map_of d ''price'' = Some (PNum p)
        \<and> (dict_get d ''surfaceArea'' = PNone \<or> (\<exists>a. dict_get d ''surfaceArea'' = PNum a))
      \<longrightarrow> (\<exists>m. normalize lower repr d = Inr m
             \<and> (dict_get m ''listingType'' = PStr ''RENT''
                  \<or> dict_get m ''listingType'' = PStr ''SALE'')
             \<and> dict_get m ''source'' = PStr ''TUNISIE_ANNONCE''))
   \<and> (normalize lower repr d = Inr n \<and> upsert_payload fv now n = Inr q
      \<longrightarrow> (map_of q ''listingType'' = Some (PStr ''RENT'')
            \<or> map_of q ''listingType'' = Some (PStr ''SALE''))
        \<and> map_of q ''source'' = Some (PStr ''TUNISIE_ANNONCE''))"
proof -
  have fields: "normalize lower repr d = Inr n
      \<longrightarrow> (dict_get n ''listingType'' = PStr ''RENT'' \<or> dict_get n ''listingType'' = PStr ''SALE'')
        \<and> dict_get n ''source'' = PStr ''TUNISIE_ANNONCE''"
    using normalize_fields by blast
  have returns: "map_of d ''title'' = Some (PStr t) \<and> t \<noteq> [] \<and> map_of d ''sourceUrl'' = Some u
        \<and> map_of d ''price'' = Some (PNum p)
        \<and> (dict_get d ''surfaceArea'' = PNone \<or> (\<exists>a. dict_get d ''surfaceArea'' = PNum a))
      \<longrightarrow> (\<exists>m. normalize lower repr d = Inr m
             \<and> (dict_get m ''listingType'' = PStr ''RENT''
                  \<or> dict_get m ''listingType'' = PStr ''SALE'')
             \<and> dict_get m ''source'' = PStr ''TUNISIE_ANNONCE'')"
  proof
    assume h: "map_of d ''title'' = Some (PStr t) \<and> t \<noteq> [] \<and> map_of d ''sourceUrl'' = Some u
        \<and> map_of d ''price'' = Some (PNum p)
        \<and> (dict_get d ''surfaceArea'' = PNone \<or> (\<exists>a. dict_get d ''surfaceArea'' = PNum a))"
    then obtain m where m: "normalize lower repr d = Inr m"
      using normalize_returns [of d t u p lower repr] by blast
    then show "\<exists>m. normalize lower repr d = Inr m
             \<and> (dict_get m ''listingType'' = PStr ''RENT''
                  \<or> dict_get m ''listingType'' = PStr ''SALE'')
             \<and> dict_get m ''source'' = PStr ''TUNISIE_ANNONCE''"
      using normalize_fields [OF m] by blast
  qed
  have persisted: "normalize lower repr d = Inr n \<and> upsert_payload fv now n = Inr q
      \<longrightarrow> (map_of q ''listingType'' = Some (PStr ''RENT'')
            \<or> map_of q ''listingType'' = Some (PStr ''SALE''))
        \<and> map_of q ''source'' = Some (PStr ''TUNISIE_ANNONCE'')"
  proof
    assume h: "normalize lower repr d = Inr n \<and> upsert_payload fv now n = Inr q"
    then have f: "(dict_get n ''listingType'' = PStr ''RENT''
          \<or> dict_get n ''listingType'' = PStr ''SALE'')
        \<and> dict_get n ''source'' = PStr ''TUNISIE_ANNONCE''"
      using normalize_fields by blast
    from h have q: "upsert_payload fv now n = Inr q"
      by simp
    from f show "(map_of q ''listingType'' = Some (PStr ''RENT'')
            \<or> map_of q ''listingType'' = Some (PStr ''SALE''))
        \<and> map_of q ''source'' = Some (PStr ''TUNISIE_ANNONCE'')"
      using payload_required_fields [OF q] by blast
  qed
  show ?thesis
    using fields returns persisted by blast
qed

theorem normalize_required_fields_witness:
  "normalize lower_latin1 blank
     [(''sourceUrl'', PStr ''http://test.com/1''), (''sourceName'', PStr ''Tunisie Annonce''),
      (''title'', PStr ''Appartement S+2 a louer''), (''type'', PStr ''Appartement''),
      (''price'', PNum 1000), (''surfaceArea'', PNum 100)]
   = Inr [(''sourceUrl'', PStr ''http://test.com/1''), (''sourceName'', PStr ''Tunisie Annonce''),
      (''title'', PStr ''Appartement S+2 a louer''), (''type'', PStr ''Appartement''),
      (''price'', PNum 1000), (''surfaceArea'', PNum 100),
      (''propertyType'', PStr ''APARTMENT''), (''listingType'', PStr ''RENT''),
      (''source'', PStr ''TUNISIE_ANNONCE''), (''status'', PStr ''ACTIVE''),
      (''pricePerSqm'', PNum 10)]
   \<and> (\<exists>m. normalize lower_latin1 blank
     [(''sourceUrl'', PStr ''http://test.com/1''), (''sourceName'', PStr ''Tunisie Annonce''),
      (''title'', PStr ''Appartement S+2 a louer''), (''type'', PStr ''Appartement''),
      (''price'', PNum 1000), (''surfaceArea'', PNum 100)] = Inr m
       \<and> (dict_get m ''listingType'' = PStr ''RENT'' \<or> dict_get m ''listingType'' = PStr ''SALE'')
       \<and> dict_get m ''source'' = PStr ''TUNISIE_ANNONCE'')
   \<and> upsert_payload blank ''2026-01-01T10:00:00''
     [(''sourceUrl'', PStr ''http://test.com/1''), (''sourceName'', PStr ''Tunisie Annonce''),
      (''title'', PStr ''Appartement S+2 a louer''), (''type'', PStr ''Appartement''),
      (''price'', PNum 1000), (''surfaceArea'', PNum 100),
      (''propertyType'', PStr ''APARTMENT''), (''listingType'', PStr ''RENT''),
      (''source'', PStr ''TUNISIE_ANNONCE''), (''status'', PStr ''ACTIVE''),
      (''pricePerSqm'', PNum 10)]
   = Inr [(''sourceUrl'', PStr ''http://test.com/1''), (''source'', PStr ''TUNISIE_ANNONCE''),
      (''listingType'', PStr ''RENT''), (''status'', PStr ''ACTIVE''),
      (''title'', PStr ''Appartement S+2 a louer''), (''price'', PNum 1000),
      (''currency'', PStr ''TND''), (''propertyType'', PStr ''APARTMENT''),
      (''surfaceArea'', PNum 100), (''pricePerSqm'', PNum 10),
      (''features'', PList []), (''aiTags'', PList []),
      (''updatedAt'', PStr ''2026-01-01T10:00:00''),
      (''scrapedAt'', PStr ''2026-01-01T10:00:00'')]
   \<and> map_of
     [(''sourceUrl'', PStr ''http://test.com/1''), (''source'', PStr ''TUNISIE_ANNONCE''),
      (''listingType'', PStr ''RENT''), (''status'', PStr ''ACTIVE''),
      (''title'', PStr ''Appartement S+2 a louer''), (''price'', PNum 1000),
      (''currency'', PStr ''TND''), (''propertyType'', PStr ''APARTMENT''),
      (''surfaceArea'', PNum 100), (''pricePerSqm'', PNum 10),
      (''features'', PList []), (''aiTags'', PList []),
      (''updatedAt'', PStr ''2026-01-01T10:00:00''),
      (''scrapedAt'', PStr ''2026-01-01T10:00:00'')] ''source'' = Some (PStr ''TUNISIE_ANNONCE'')"
  (is "normalize _ _ ?d = Inr ?n \<and> ?returns \<and> upsert_payload _ ?now _ = Inr ?q \<and> ?persisted")
proof -
  have e: "normalize lower_latin1 blank ?d = Inr ?n"
    by code_simp
  have f: "upsert_payload blank ?now ?n = Inr ?q"
    by code_simp
  note w = normalize_required_fields
    [of lower_latin1 blank ?d ?n "''Appartement S+2 a louer''" "PStr ''http://test.com/1''" 1000 blank ?now ?q]
  have b: ?returns
    using w by (simp add: dict_get_def)
  have c: ?persisted
    using w e f by blast
  show ?thesis
    using e b f c by blast
qed

text \<open>
  Claim C6, as the code has it. When the surfaceArea is null or not positive the
  normalizer computes nothing: the record keeps the \<open>pricePerSqm\<close> entry of the input,
  so the field is null when the input had none. When the surfaceArea is positive, the
  field is \<open>price / surfaceArea\<close> whatever the price, a price of \<open>0\<close> or below included.
  The normalizer never raises a division by zero.
\<close>

theorem normalize_price_per_sqm:
  "(normalize lower repr d = Inr n
      \<and> (dict_get d ''surfaceArea'' = PNone \<or> (\<exists>a. dict_get d ''surfaceArea'' = PNum a \<and> a \<le> 0))
     \<longrightarrow> map_of n ''pricePerSqm'' = map_of d ''pricePerSqm''
        \<and> (map_of d ''pricePerSqm'' = None \<longrightarrow> dict_get n ''pricePerSqm'' = PNone))
   \<and> (normalize lower repr d = Inr n \<and> dict_get d ''surfaceArea'' = PNum a \<and> 0 < a
     \<longrightarrow> (\<exists>p. map_of d ''price'' = Some (PNum p) \<and> dict_get n ''pricePerSqm'' = PNum (p / a)))
   \<and> normalize lower repr d \<noteq> Inl ZeroDivisionError"
proof (intro conjI impI)
  assume h: "normalize lower repr d = Inr n
      \<and> (dict_get d ''surfaceArea'' = PNone \<or> (\<exists>a. dict_get d ''surfaceArea'' = PNum a \<and> a \<le> 0))"
  then show e: "map_of n ''pricePerSqm'' = map_of d ''pricePerSqm''"
    using normalize_no_area by blast
  assume "map_of d ''pricePerSqm'' = None"
  with e show "dict_get n ''pricePerSqm'' = PNone"
    by (simp add: dict_get_def)
next
  assume "normalize lower repr d = Inr n \<and> dict_get d ''surfaceArea'' = PNum a \<and> 0 < a"
  then obtain p where "map_of d ''price'' = Some (PNum p)"
      "map_of n ''pricePerSqm'' = Some (PNum (p / a))"
    using normalize_area by blast
  then show "\<exists>p. map_of d ''price'' = Some (PNum p) \<and> dict_get n ''pricePerSqm'' = PNum (p / a)"
    by (simp add: dict_get_def)
next
  show "normalize lower repr d \<noteq> Inl ZeroDivisionError"
    by (rule normalize_no_zero_division)
qed

theorem normalize_price_per_sqm_witness:
  "normalize lower_latin1 blank
     [(''sourceUrl'', PStr ''http://test.com/1''), (''title'', PStr ''Villa''),
      (''price'', PNum 1000), (''surfaceArea'', PNum 100)]
   = Inr [(''sourceUrl'', PStr ''http://test.com/1''), (''title'', PStr ''Villa''),
      (''price'', PNum 1000), (''surfaceArea'', PNum 100),
      (''propertyType'', PStr ''VILLA''), (''listingType'', PStr ''SALE''),
      (''source'', PStr ''TUNISIE_ANNONCE''), (''status'', PStr ''ACTIVE''),
      (''pricePerSqm'', PNum 10)]
   \<and> (\<exists>p. map_of
     [(''sourceUrl'', PStr ''http://test.com/1''), (''title'', PStr ''Villa''),
      (''price'', PNum 1000), (''surfaceArea'', PNum 100)] ''price'' = Some (PNum p)
     \<and> dict_get
     [(''sourceUrl'', PStr ''http://test.com/1''), (''title'', PStr ''Villa''),
      (''price'', PNum 1000), (''surfaceArea'', PNum 100),
      (''propertyType'', PStr ''VILLA''), (''listingType'', PStr ''SALE''),
      (''source'', PStr ''TUNISIE_ANNONCE''), (''status'', PStr ''ACTIVE''),
      (''pricePerSqm'', PNum 10)] ''pricePerSqm'' = PNum (p / 100))
   \<and> normalize lower_latin1 blank
     [(''sourceUrl'', PStr ''http://test.com/1''), (''title'', PStr ''Villa''),
      (''price'', PNum 1000), (''surfaceArea'', PNum 0)]
   = Inr [(''sourceUrl'', PStr ''http://test.com/1''), (''title'', PStr ''Villa''),
      (''price'', PNum 1000), (''surfaceArea'', PNum 0),
      (''propertyType'', PStr ''VILLA''), (''listingType'', PStr ''SALE''),
      (''source'', PStr ''TUNISIE_ANNONCE''), (''status'', PStr ''ACTIVE'')]
   \<and> dict_get
     [(''sourceUrl'', PStr ''http://test.com/1''), (''title'', PStr ''Villa''),
      (''price'', PNum 1000), (''surfaceArea'', PNum 0),
      (''propertyType'', PStr ''VILLA''), (''listingType'', PStr ''SALE''),
      (''source'', PStr ''TUNISIE_ANNONCE''), (''status'', PStr ''ACTIVE'')] ''pricePerSqm'' = PNone"
  (is "normalize _ _ ?d1 = Inr ?n1 \<and> ?computed \<and> normalize _ _ ?d2 = Inr ?n2 \<and> ?null")
proof -
  have e1: "normalize lower_latin1 blank ?d1 = Inr ?n1"
    by code_simp
  have e2: "normalize lower_latin1 blank ?d2 = Inr ?n2"
    by code_simp
  have a: ?computed
    using normalize_price_per_sqm [of lower_latin1 blank ?d1 ?n1 100] e1 by (simp add: dict_get_def)
  have b: ?null
    using normalize_price_per_sqm [of lower_latin1 blank ?d2 ?n2 0] e2 by (simp add: dict_get_def)
  show ?thesis
    using e1 a e2 b by blast
qed

text \<open>
  Claim C6 as stated does not hold. With a price of \<open>0\<close> and a surfaceArea of \<open>100\<close> the
  normalizer computes \<open>pricePerSqm = 0 / 100\<close>, although the price is not positive. And a
  record without a surfaceArea that already carries a \<open>pricePerSqm\<close> keeps it: the field
  is not null.
\<close>

theorem normalize_zero_price_counterexample:
  "normalize lower_latin1 blank
     [(''sourceUrl'', PStr ''http://test.com/1''), (''title'', PStr ''Villa''),
      (''price'', PNum 0), (''surfaceArea'', PNum 100)]
   = Inr [(''sourceUrl'', PStr ''http://test.com/1''), (''title'', PStr ''Villa''),
      (''price'', PNum 0), (''surfaceArea'', PNum 100),
      (''propertyType'', PStr ''VILLA''), (''listingType'', PStr ''SALE''),
      (''source'', PStr ''TUNISIE_ANNONCE''), (''status'', PStr ''ACTIVE''),
      (''pricePerSqm'', PNum 0)]
   \<and> normalize lower_latin1 blank
     [(''sourceUrl'', PStr ''http://test.com/1''), (''title'', PStr ''Villa''),
      (''price'', PNum 5000), (''pricePerSqm'', PNum 50)]
   = Inr [(''sourceUrl'', PStr ''http://test.com/1''), (''title'', PStr ''Villa''),
      (''price'', PNum 5000), (''pricePerSqm'', PNum 50),
      (''propertyType'', PStr ''VILLA''), (''listingType'', PStr ''SALE''),
      (''source'', PStr ''TUNISIE_ANNONCE''), (''status'', PStr ''ACTIVE'')]"
  (is "?computed \<and> ?kept")
proof -
  have a: ?computed
    by code_simp
  have b: ?kept
    by code_simp
  show ?thesis
    using a b by (rule conjI)
qed

section \<open>Properties of the upsert client\<close>

lemma map_of_merge_update:
  "distinct (map fst p) \<Longrightarrow>
   map_of (merge_update p r) k =
     (if k = ''createdAt'' then map_of r k
      else case map_of p k of None \<Rightarrow> map_of r k | Some v \<Rightarrow> Some v)"
  unfolding merge_update_def
proof (induction p arbitrary: r)
  case Nil
  then show ?case by simp
next
  case (Cons x xs)
  obtain k0 v0 where x: "x = (k0, v0)" by (cases x)
  have none: "map_of xs k0 = None"
    using Cons.prems x by (simp add: map_of_eq_None_iff)
  have d: "distinct (map fst xs)" using Cons.prems by simp
  have step: "fold (\<lambda>(k, v) r. if k = ''createdAt'' then r else AList.update k v r) (x # xs) r
      = fold (\<lambda>(k, v) r. if k = ''createdAt'' then r else AList.update k v r) xs
          (if k0 = ''createdAt'' then r else AList.update k0 v0 r)"
    using x by simp
  show ?case
  proof (cases "k = k0")
    case True
    then show ?thesis
      unfolding step Cons.IH [OF d] using x none by (simp add: update_conv' split: option.split)
  next
    case False
    then show ?thesis
      unfolding step Cons.IH [OF d] using x by (simp add: update_conv' split: option.split)
  qed
qed

lemma dict_get_merge_update:
  "distinct (map fst p) \<Longrightarrow>
   dict_get (merge_update p r) k =
     (if k = ''createdAt'' then dict_get r k
      else case map_of p k of None \<Rightarrow> dict_get r k | Some v \<Rightarrow> v)"
  by (simp add: dict_get_def map_of_merge_update split: option.split)

lemma length_store_upsert:
  "length (store_upsert now p rows)
     = (if list_ex (\<lambda>row. dict_get row ''sourceUrl'' = dict_get p ''sourceUrl'') rows
        then length rows else Suc (length rows))"
  by (induction rows) auto

lemma select_store_upsert:
  assumes "\<And>r. dict_get r ''sourceUrl'' = u \<Longrightarrow> dict_get (merge_update p r) ''sourceUrl'' = u"
    and "dict_get (AList.update ''createdAt'' (PStr now) p) ''sourceUrl'' = u"
    and "dict_get p ''sourceUrl'' = u"
  shows "select_by_url u (store_upsert now p rows)
     = Some (case select_by_url u rows of
               None \<Rightarrow> AList.update ''createdAt'' (PStr now) p
             | Some r \<Rightarrow> merge_update p r)"
  using assms by (induction rows) (auto simp: select_by_url_def)

lemma store_upsert_nth:
  "i < length rows \<Longrightarrow>
   store_upsert now p rows ! i = rows ! i \<or> store_upsert now p rows ! i = merge_update p (rows ! i)"
proof (induction rows arbitrary: i)
  case Nil
  then show ?case by simp
next
  case (Cons r rows)
  then show ?case by (cases i) auto
qed

lemma merge_keeps_url:
  assumes "distinct (map fst p)" "dict_get p ''sourceUrl'' = u" "dict_get r ''sourceUrl'' = u"
  shows "dict_get (merge_update p r) ''sourceUrl'' = u"
proof -
  have "dict_get (merge_update p r) ''sourceUrl''
      = (case map_of p ''sourceUrl'' of None \<Rightarrow> dict_get r ''sourceUrl'' | Some v \<Rightarrow> v)"
    using assms(1) by (simp add: dict_get_merge_update)
  also have "\<dots> = u"
    using assms(2,3) by (cases "map_of p ''sourceUrl''") (simp_all add: dict_get_def)
  finally show ?thesis .
qed

lemma insert_keeps_url:
  "dict_get (AList.update ''createdAt'' (PStr now) p) ''sourceUrl'' = dict_get p ''sourceUrl''"
  by (simp add: dict_get_def update_conv')

lemma merge_keeps_non_null:
  assumes "distinct (map fst p)" "\<And>k. (k, PNone) \<notin> set p" "dict_get r k \<noteq> PNone"
  shows "dict_get (merge_update p r) k \<noteq> PNone"
proof (cases "map_of p k")
  case None
  then show ?thesis using assms by (auto simp: dict_get_merge_update)
next
  case (Some v)
  then have "(k, v) \<in> set p" by (rule map_of_SomeD)
  then have "v \<noteq> PNone" using assms(2) by auto
  then show ?thesis using assms(1,3) Some by (auto simp: dict_get_merge_update)
qed

lemma upsert_property_cases:
  assumes "upsert_property fv now d rows = Inr rows'"
  shows "\<exists>p. upsert_payload fv now d = Inr p \<and> rows' = store_upsert now p rows"
  using assms by (auto simp: upsert_property_def split: sum.splits)

text \<open>
  Claim C3 fails on the code. The stored row has \<open>aiTags = ["x"]\<close> and a deal rating; the
  listing is scraped again and the input has no \<open>aiTags\<close> key. The payload then carries
  \<open>aiTags = []\<close>, the default of \<open>property_data.get('aiTags', [])\<close>, which is not \<open>None\<close>
  and is written: the stored tags are lost (as are the stored features), while the deal
  rating, whose payload entry is \<open>None\<close> and is removed, is kept.
\<close>

theorem upsert_property_resets_aiTags:
  "upsert_property blank ''2026-01-02T10:00:00''
     [(''sourceUrl'', PStr ''http://test.com/1''), (''listingType'', PStr ''SALE''),
      (''title'', PStr ''Villa''), (''price'', PNum 500000)]
     [[(''sourceUrl'', PStr ''http://test.com/1''), (''title'', PStr ''Villa''),
      (''description'', PStr ''Belle villa''), (''features'', PList [PStr ''pool'']),
      (''dealRating'', PNum 70), (''aiTags'', PList [PStr ''x'']),
      (''createdAt'', PStr ''2026-01-01T10:00:00'')]]
   = Inr [[(''sourceUrl'', PStr ''http://test.com/1''), (''title'', PStr ''Villa''),
      (''description'', PStr ''Belle villa''), (''features'', PList []),
      (''dealRating'', PNum 70), (''aiTags'', PList []),
      (''createdAt'', PStr ''2026-01-01T10:00:00''), (''source'', PStr ''TUNISIE_ANNONCE''),
      (''listingType'', PStr ''SALE''), (''status'', PStr ''ACTIVE''),
      (''price'', PNum 500000), (''currency'', PStr ''TND''),
      (''updatedAt'', PStr ''2026-01-02T10:00:00''),
      (''scrapedAt'', PStr ''2026-01-02T10:00:00'')]]"
  by code_simp

text \<open>
  Claim C10. The payload holds no \<open>None\<close> value. Hence an upsert leaves every stored
  field that was not null not null: each row the store held is still there, at its place,
  with every such field still set. A stored list is not safe from it: when the input has
  no \<open>aiTags\<close> and no \<open>features\<close> key, the stored row of the listing ends with both
  lists empty.
\<close>

theorem upsert_payload_strips_none:
  "(upsert_payload fv now d = Inr p \<longrightarrow> PNone \<notin> snd ` set p)
   \<and> (upsert_property fv now d rows = Inr rows'
      \<longrightarrow> length rows \<le> length rows'
        \<and> (\<forall>i k. i < length rows \<and> dict_get (rows ! i) k \<noteq> PNone
              \<longrightarrow> dict_get (rows' ! i) k \<noteq> PNone))
   \<and> (upsert_property fv now d rows = Inr rows' \<and> map_of d ''sourceUrl'' = Some u
        \<and> select_by_url u rows = Some r
        \<and> map_of d ''aiTags'' = None \<and> map_of d ''features'' = None
      \<longrightarrow> (\<exists>r'. select_by_url u rows' = Some r'
             \<and> dict_get r' ''aiTags'' = PList [] \<and> dict_get r' ''features'' = PList []))"
proof -
  have a: "upsert_payload fv now d = Inr p \<longrightarrow> PNone \<notin> snd ` set p"
    using payload_no_none by force
  have b: "upsert_property fv now d rows = Inr rows'
      \<longrightarrow> length rows \<le> length rows'
        \<and> (\<forall>i k. i < length rows \<and> dict_get (rows ! i) k \<noteq> PNone
              \<longrightarrow> dict_get (rows' ! i) k \<noteq> PNone)"
  proof
    assume "upsert_property fv now d rows = Inr rows'"
    then obtain q where q: "upsert_payload fv now d = Inr q" "rows' = store_upsert now q rows"
      using upsert_property_cases by blast
    have dq: "distinct (map fst q)"
      using q(1) by (rule payload_distinct)
    have nq: "\<And>k. (k, PNone) \<notin> set q"
      using q(1) by (rule payload_no_none)
    have len: "length rows \<le> length rows'"
      unfolding q(2) length_store_upsert by simp
    have keep: "dict_get (rows' ! i) k \<noteq> PNone"
      if "i < length rows" "dict_get (rows ! i) k \<noteq> PNone" for i k
      using store_upsert_nth [OF that(1), of now q] that(2) merge_keeps_non_null [OF dq nq]
      unfolding q(2) by auto
    show "length rows \<le> length rows'
        \<and> (\<forall>i k. i < length rows \<and> dict_get (rows ! i) k \<noteq> PNone
              \<longrightarrow> dict_get (rows' ! i) k \<noteq> PNone)"
      using len keep by blast
  qed
  have c: "upsert_property fv now d rows = Inr rows' \<and> map_of d ''sourceUrl'' = Some u
        \<and> select_by_url u rows = Some r
        \<and> map_of d ''aiTags'' = None \<and> map_of d ''features'' = None
      \<longrightarrow> (\<exists>r'. select_by_url u rows' = Some r'
             \<and> dict_get r' ''aiTags'' = PList [] \<and> dict_get r' ''features'' = PList [])"
  proof
    assume h: "upsert_property fv now d rows = Inr rows' \<and> map_of d ''sourceUrl'' = Some u
        \<and> select_by_url u rows = Some r
        \<and> map_of d ''aiTags'' = None \<and> map_of d ''features'' = None"
    then obtain q where q: "upsert_payload fv now d = Inr q" "rows' = store_upsert now q rows"
      using upsert_property_cases by blast
    have dq: "distinct (map fst q)"
      using q(1) by (rule payload_distinct)
    have sq: "dict_get q ''sourceUrl'' = u"
      using q(1) h payload_sourceUrl by blast
    have m: "\<And>r. dict_get r ''sourceUrl'' = u \<Longrightarrow> dict_get (merge_update q r) ''sourceUrl'' = u"
      using merge_keeps_url [OF dq sq] by blast
    have i: "dict_get (AList.update ''createdAt'' (PStr now) q) ''sourceUrl'' = u"
      using sq by (simp add: insert_keeps_url)
    have "select_by_url u rows'
       = Some (case select_by_url u rows of
               None \<Rightarrow> AList.update ''createdAt'' (PStr now) q
             | Some r \<Rightarrow> merge_update q r)"
      unfolding q(2) by (rule select_store_upsert [OF m i sq])
    then have sel: "select_by_url u rows' = Some (merge_update q r)"
      using h by simp
    have tags: "map_of q ''aiTags'' = Some (PList [])"
      using payload_list_default(1) [OF q(1)] h by (simp add: dict_get_default_def)
    have feats: "map_of q ''features'' = Some (PList [])"
      using payload_list_default(2) [OF q(1)] h by (simp add: dict_get_default_def)
    have "dict_get (merge_update q r) ''aiTags'' = PList []"
      using tags by (simp add: dict_get_merge_update [OF dq])
    moreover have "dict_get (merge_update q r) ''features'' = PList []"
      using feats by (simp add: dict_get_merge_update [OF dq])
    ultimately show "\<exists>r'. select_by_url u rows' = Some r'
             \<and> dict_get r' ''aiTags'' = PList [] \<and> dict_get r' ''features'' = PList []"
      using sel by blast
  qed
  show ?thesis
    using a b c by blast
qed

theorem upsert_payload_strips_none_witness:
  "upsert_payload blank ''2026-01-02T10:00:00''
     [(''sourceUrl'', PStr ''http://test.com/1''), (''listingType'', PStr ''SALE''),
      (''title'', PStr ''Villa''), (''price'', PNum 500000)]
   = Inr [(''sourceUrl'', PStr ''http://test.com/1''), (''source'', PStr ''TUNISIE_ANNONCE''),
      (''listingType'', PStr ''SALE''), (''status'', PStr ''ACTIVE''),
      (''title'', PStr ''Villa''), (''price'', PNum 500000), (''currency'', PStr ''TND''),
      (''features'', PList []), (''aiTags'', PList []),
      (''updatedAt'', PStr ''2026-01-02T10:00:00''),
      (''scrapedAt'', PStr ''2026-01-02T10:00:00'')]
   \<and> PNone \<notin> snd ` set [(''sourceUrl'', PStr ''http://test.com/1''), (''source'', PStr ''TUNISIE_ANNONCE''),
      (''listingType'', PStr ''SALE''), (''status'', PStr ''ACTIVE''),
      (''title'', PStr ''Villa''), (''price'', PNum 500000), (''currency'', PStr ''TND''),
      (''features'', PList []), (''aiTags'', PList []),
      (''updatedAt'', PStr ''2026-01-02T10:00:00''),
      (''scrapedAt'', PStr ''2026-01-02T10:00:00'')]
   \<and> (\<exists>rows' r'. upsert_property blank ''2026-01-02T10:00:00''
     [(''sourceUrl'', PStr ''http://test.com/1''), (''listingType'', PStr ''SALE''),
      (''title'', PStr ''Villa''), (''price'', PNum 500000)]
     [[(''sourceUrl'', PStr ''http://test.com/1''), (''title'', PStr ''Villa''),
      (''description'', PStr ''Belle villa''), (''features'', PList [PStr ''pool'']),
      (''dealRating'', PNum 70), (''aiTags'', PList [PStr ''x'']),
      (''createdAt'', PStr ''2026-01-01T10:00:00'')]] = Inr rows'
     \<and> select_by_url (PStr ''http://test.com/1'') rows' = Some r'
     \<and> dict_get r' ''description'' \<noteq> PNone
     \<and> dict_get r' ''aiTags'' = PList [] \<and> dict_get r' ''features'' = PList [])"
  (is "upsert_payload _ ?now ?d = Inr ?q \<and> ?clean \<and> ?stored")
proof -
  let ?r = "[(''sourceUrl'', PStr ''http://test.com/1''), (''title'', PStr ''Villa''),
      (''description'', PStr ''Belle villa''), (''features'', PList [PStr ''pool'']),
      (''dealRating'', PNum 70), (''aiTags'', PList [PStr ''x'']),
      (''createdAt'', PStr ''2026-01-01T10:00:00'')]"
  have e1: "upsert_payload blank ?now ?d = Inr ?q"
    by code_simp
  have e2: "upsert_property blank ?now ?d [?r]
   = Inr [[(''sourceUrl'', PStr ''http://test.com/1''), (''title'', PStr ''Villa''),
      (''description'', PStr ''Belle villa''), (''features'', PList []),
      (''dealRating'', PNum 70), (''aiTags'', PList []),
      (''createdAt'', PStr ''2026-01-01T10:00:00''), (''source'', PStr ''TUNISIE_ANNONCE''),
      (''listingType'', PStr ''SALE''), (''status'', PStr ''ACTIVE''),
      (''price'', PNum 500000), (''currency'', PStr ''TND''),
      (''updatedAt'', PStr ''2026-01-02T10:00:00''),
      (''scrapedAt'', PStr ''2026-01-02T10:00:00'')]]"
    (is "_ = Inr ?rows'")
    by code_simp
  have url: "map_of ?d ''sourceUrl'' = Some (PStr ''http://test.com/1'')"
    by simp
  have sel: "select_by_url (PStr ''http://test.com/1'') [?r] = Some ?r"
    by (simp add: select_by_url_def dict_get_def)
  have tags: "map_of ?d ''aiTags'' = None" and feats: "map_of ?d ''features'' = None"
    by simp_all
  note w = upsert_payload_strips_none [of blank ?now ?d ?q "[?r]" ?rows' "PStr ''http://test.com/1''" ?r]
  have a: ?clean
    using w [THEN conjunct1] e1 by (rule mp)
  have keep: "length [?r] \<le> length ?rows'
      \<and> (\<forall>i k. i < length [?r] \<and> dict_get ([?r] ! i) k \<noteq> PNone
            \<longrightarrow> dict_get (?rows' ! i) k \<noteq> PNone)"
    using w [THEN conjunct2, THEN conjunct1] e2 by (rule mp)
  have "0 < length [?r] \<and> dict_get ([?r] ! 0) ''description'' \<noteq> PNone"
    by (simp add: dict_get_def)
  with keep [THEN conjunct2, THEN spec, THEN spec]
  have d: "dict_get (?rows' ! 0) ''description'' \<noteq> PNone"
    by (rule mp)
  have h: "upsert_property blank ?now ?d [?r] = Inr ?rows'
      \<and> map_of ?d ''sourceUrl'' = Some (PStr ''http://test.com/1'') \<and> select_by_url (PStr ''http://test.com/1'') [?r] = Some ?r
      \<and> map_of ?d ''aiTags'' = None \<and> map_of ?d ''features'' = None"
    using e2 url sel tags feats by (intro conjI)
  from w [THEN conjunct2, THEN conjunct2] h
  have "\<exists>r'. select_by_url (PStr ''http://test.com/1'') ?rows' = Some r'
      \<and> dict_get r' ''aiTags'' = PList [] \<and> dict_get r' ''features'' = PList []"
    by (rule mp)
  then obtain r' where r': "select_by_url (PStr ''http://test.com/1'') ?rows' = Some r'"
      "dict_get r' ''aiTags'' = PList []" "dict_get r' ''features'' = PList []"
    by blast
  have "select_by_url (PStr ''http://test.com/1'') ?rows' = Some (?rows' ! 0)"
    by (simp add: select_by_url_def dict_get_def)
  with r'(1) have "r' = ?rows' ! 0"
    by simp
  with d have d': "dict_get r' ''description'' \<noteq> PNone"
    by simp
  have b: ?stored
    using e2 r'(1) d' r'(2,3) by (intro exI conjI)
  show ?thesis
    using e1 a b by (intro conjI)
qed

section \<open>Properties of the neighborhood aggregator\<close>

lemma where_rows_filter:
  "where_rows (filter (\<lambda>p. case surface_area p of None \<Rightarrow> False | Some a \<Rightarrow> 0 < a) props)
     = where_rows props"
  by (induction props) (auto simp: where_rows_def List.map_filter_simps split: option.splits)

lemma select_stats_filter:
  "select_stats now (filter (\<lambda>p. case surface_area p of None \<Rightarrow> False | Some a \<Rightarrow> 0 < a) props)
     = select_stats now props"
  by (simp add: select_stats_def where_rows_filter)

lemma where_rows_group:
  "map snd (filter (\<lambda>kp. fst kp = k) (where_rows props))
     = filter (\<lambda>p. prop_city p = Some (fst k) \<and> prop_region p = snd k
          \<and> (case surface_area p of None \<Rightarrow> False | Some a \<Rightarrow> 0 < a)) props"
  by (induction props) (auto simp: where_rows_def List.map_filter_simps split: option.splits)

lemma select_stats_row:
  assumes "r \<in> set (select_stats now props)"
  shows "\<exists>k. k \<in> set (map fst (where_rows props)) \<and>
      r = group_row now k (filter (\<lambda>p. prop_city p = Some (fst k) \<and> prop_region p = snd k
          \<and> (case surface_area p of None \<Rightarrow> False | Some a \<Rightarrow> 0 < a)) props)"
proof -
  from assms obtain k where "k \<in> set (remdups (map fst (where_rows props)))"
    "r = group_row now k (map snd (filter (\<lambda>kp. fst kp = k) (where_rows props)))"
    unfolding select_stats_def Let_def by auto
  then show ?thesis
    unfolding where_rows_group by auto
qed

lemma sql_avg_positive:
  assumes "\<forall>p \<in> set g. case surface_area p of None \<Rightarrow> False | Some a \<Rightarrow> 0 < a"
  shows "sql_avg (map price_per_area g)
     = sum_list (map (\<lambda>p. case surface_area p of None \<Rightarrow> 0 | Some a \<Rightarrow> price p / a) g)
         / of_nat (length g)"
proof -
  have "List.map_filter id (map price_per_area g)
      = map (\<lambda>p. case surface_area p of None \<Rightarrow> 0 | Some a \<Rightarrow> price p / a) g"
    using assms
    by (induction g) (auto simp: List.map_filter_simps price_per_area_def split: option.splits)
  then show ?thesis
    by (simp add: sql_avg_def Let_def)
qed














lemma select_stats_totals:
  assumes "r \<in> set (select_stats now props)"
  shows "total_listings r = length (filter (\<lambda>p. prop_city p = Some (city r) \<and> prop_region p = region r
            \<and> (case surface_area p of None \<Rightarrow> False | Some a \<Rightarrow> 0 < a)) props)
     \<and> 0 < total_listings r
     \<and> avg_price_per_sqm r
         = sum_list (map (\<lambda>p. case surface_area p of None \<Rightarrow> 0 | Some a \<Rightarrow> price p / a)
             (filter (\<lambda>p. prop_city p = Some (city r) \<and> prop_region p = region r
            \<and> (case surface_area p of None \<Rightarrow> False | Some a \<Rightarrow> 0 < a)) props))
           / of_nat (total_listings r)"
proof -
  from select_stats_row [OF assms] obtain k where
    k: "k \<in> set (map fst (where_rows props))"
    and r: "r = group_row now k (filter (\<lambda>p. prop_city p = Some (fst k) \<and> prop_region p = snd k
            \<and> (case surface_area p of None \<Rightarrow> False | Some a \<Rightarrow> 0 < a)) props)"
    by blast
  define g where "g = filter (\<lambda>p. prop_city p = Some (fst k) \<and> prop_region p = snd k
            \<and> (case surface_area p of None \<Rightarrow> False | Some a \<Rightarrow> 0 < a)) props"
  have cr: "city r = fst k" "region r = snd k"
    using r by (simp_all add: group_row_def)
  have tot: "total_listings r = length g"
    using r by (simp add: group_row_def g_def)
  from k obtain kp where "kp \<in> set (where_rows props)" "fst kp = k"
    by auto
  then have "filter (\<lambda>kp. fst kp = k) (where_rows props) \<noteq> []"
    by (auto simp: filter_empty_conv)
  then have ne: "g \<noteq> []"
    unfolding g_def where_rows_group [symmetric] by simp
  have "\<forall>p \<in> set g. case surface_area p of None \<Rightarrow> False | Some a \<Rightarrow> 0 < a"
    by (auto simp: g_def)
  then have "sql_avg (map price_per_area g)
      = sum_list (map (\<lambda>p. case surface_area p of None \<Rightarrow> 0 | Some a \<Rightarrow> price p / a) g) / of_nat (length g)"
    by (rule sql_avg_positive)
  then have avg: "avg_price_per_sqm r
      = sum_list (map (\<lambda>p. case surface_area p of None \<Rightarrow> 0 | Some a \<Rightarrow> price p / a) g) / of_nat (length g)"
    using r by (simp add: group_row_def g_def)
  show ?thesis
    using tot ne avg unfolding cr g_def by simp
qed

text \<open>
  Claim C8, as the code has it. A property with a missing or non-positive surfaceArea is
  dropped by the \<open>WHERE\<close> clause before the grouping: the statistics are those of the
  properties with a positive surfaceArea alone. For each locality computed,
  \<open>total_listings\<close> counts its properties of positive surfaceArea, and the average price
  per square metre is the mean over the same properties; the properties left out count
  in neither.
\<close>

theorem select_stats_drops_missing_area:
  "select_stats now props = select_stats now (filter (\<lambda>p. case surface_area p of None \<Rightarrow> False | Some a \<Rightarrow> 0 < a) props)
   \<and> update_neighborhood_stats nd now props table
       = update_neighborhood_stats nd now (filter (\<lambda>p. case surface_area p of None \<Rightarrow> False | Some a \<Rightarrow> 0 < a) props) table
   \<and> (\<forall>r \<in> set (select_stats now props).
         total_listings r = length (filter (\<lambda>p. prop_city p = Some (city r) \<and> prop_region p = region r
            \<and> (case surface_area p of None \<Rightarrow> False | Some a \<Rightarrow> 0 < a)) props)
         \<and> 0 < total_listings r
         \<and> avg_price_per_sqm r
             = sum_list (map (\<lambda>p. case surface_area p of None \<Rightarrow> 0 | Some a \<Rightarrow> price p / a)
                 (filter (\<lambda>p. prop_city p = Some (city r) \<and> prop_region p = region r
            \<and> (case surface_area p of None \<Rightarrow> False | Some a \<Rightarrow> 0 < a)) props))
               / of_nat (total_listings r))"
proof -
  have a: "select_stats now props = select_stats now (filter (\<lambda>p. case surface_area p of None \<Rightarrow> False | Some a \<Rightarrow> 0 < a) props)"
    by (simp add: select_stats_filter)
  have b: "update_neighborhood_stats nd now props table
       = update_neighborhood_stats nd now (filter (\<lambda>p. case surface_area p of None \<Rightarrow> False | Some a \<Rightarrow> 0 < a) props) table"
    by (simp add: update_neighborhood_stats_def select_stats_filter)
  show ?thesis
    using a b select_stats_totals by blast
qed

theorem select_stats_drops_missing_area_witness:
  "select_stats 1
     [\<lparr>prop_city = Some ''Tunis'', prop_region = Some ''Lac'', price = 200000,
        surface_area = Some 100, status = ''ACTIVE''\<rparr>,
      \<lparr>prop_city = Some ''Tunis'', prop_region = Some ''Lac'', price = 300000,
        surface_area = None, status = ''ACTIVE''\<rparr>,
      \<lparr>prop_city = Some ''Tunis'', prop_region = Some ''Lac'', price = 300000,
        surface_area = Some 100, status = ''SOLD''\<rparr>]
   = [\<lparr>city = ''Tunis'', region = Some ''Lac'', avg_price_per_sqm = 2500,
        median_price = 250000, total_listings = 2, active_listings = 1,
        avg_rent_price = None, avg_sale_price = None, updated_at = 1\<rparr>]
   \<and> select_stats 1 (filter (\<lambda>p. case surface_area p of None \<Rightarrow> False | Some a \<Rightarrow> 0 < a)
     [\<lparr>prop_city = Some ''Tunis'', prop_region = Some ''Lac'', price = 200000,
        surface_area = Some 100, status = ''ACTIVE''\<rparr>,
      \<lparr>prop_city = Some ''Tunis'', prop_region = Some ''Lac'', price = 300000,
        surface_area = None, status = ''ACTIVE''\<rparr>,
      \<lparr>prop_city = Some ''Tunis'', prop_region = Some ''Lac'', price = 300000,
        surface_area = Some 100, status = ''SOLD''\<rparr>])
   = [\<lparr>city = ''Tunis'', region = Some ''Lac'', avg_price_per_sqm = 2500,
        median_price = 250000, total_listings = 2, active_listings = 1,
        avg_rent_price = None, avg_sale_price = None, updated_at = 1\<rparr>]
   \<and> length (filter (\<lambda>p. prop_city p = Some ''Tunis'' \<and> prop_region p = Some ''Lac''
          \<and> (case surface_area p of None \<Rightarrow> False | Some a \<Rightarrow> 0 < a))
     [\<lparr>prop_city = Some ''Tunis'', prop_region = Some ''Lac'', price = 200000,
        surface_area = Some 100, status = ''ACTIVE''\<rparr>,
      \<lparr>prop_city = Some ''Tunis'', prop_region = Some ''Lac'', price = 300000,
        surface_area = None, status = ''ACTIVE''\<rparr>,
      \<lparr>prop_city = Some ''Tunis'', prop_region = Some ''Lac'', price = 300000,
        surface_area = Some 100, status = ''SOLD''\<rparr>]) = 2"
  (is "select_stats _ ?ps = [?row] \<and> ?filtered \<and> ?counted")
proof -
  have e: "select_stats 1 ?ps = [?row]"
    by code_simp
  note w = select_stats_drops_missing_area [of 1 ?ps True "[]"]
  have f: ?filtered
    using w e by simp
  have "\<forall>r \<in> set (select_stats 1 ?ps).
      total_listings r = length (filter (\<lambda>p. prop_city p = Some (city r)
          \<and> prop_region p = region r
          \<and> (case surface_area p of None \<Rightarrow> False | Some a \<Rightarrow> 0 < a)) ?ps)"
    using w by blast
  then have t: ?counted
    unfolding e by simp
  show ?thesis
    using e f t by blast
qed

text \<open>
  Claim C8 as stated does not hold: of three properties of one locality, one without a
  surfaceArea, the aggregator counts two in \<open>total_listings\<close>.
\<close>

theorem select_stats_total_counterexample:
  "select_stats 1
     [\<lparr>prop_city = Some ''Tunis'', prop_region = Some ''Lac'', price = 200000,
        surface_area = Some 100, status = ''ACTIVE''\<rparr>,
      \<lparr>prop_city = Some ''Tunis'', prop_region = Some ''Lac'', price = 300000,
        surface_area = None, status = ''ACTIVE''\<rparr>,
      \<lparr>prop_city = Some ''Tunis'', prop_region = Some ''Lac'', price = 300000,
        surface_area = Some 100, status = ''SOLD''\<rparr>]
   = [\<lparr>city = ''Tunis'', region = Some ''Lac'', avg_price_per_sqm = 2500,
        median_price = 250000, total_listings = 2, active_listings = 1,
        avg_rent_price = None, avg_sale_price = None, updated_at = 1\<rparr>]
   \<and> length (filter (\<lambda>p. prop_city p = Some ''Tunis'' \<and> prop_region p = Some ''Lac'')
     [\<lparr>prop_city = Some ''Tunis'', prop_region = Some ''Lac'', price = 200000,
        surface_area = Some 100, status = ''ACTIVE''\<rparr>,
      \<lparr>prop_city = Some ''Tunis'', prop_region = Some ''Lac'', price = 300000,
        surface_area = None, status = ''ACTIVE''\<rparr>,
      \<lparr>prop_city = Some ''Tunis'', prop_region = Some ''Lac'', price = 300000,
        surface_area = Some 100, status = ''SOLD''\<rparr>]) = 3"
  (is "?stats \<and> ?listed")
proof -
  have a: ?stats
    by code_simp
  have b: ?listed
    by simp
  show ?thesis
    using a b by (rule conjI)
qed




end
